theory Spec2Isabelle
  imports Main
begin

section \<open>Data model of \<open>src/domain/LifeHistory.ts\<close>\<close>

text \<open>
  The TypeScript object types become records. An event is the union of the text and the
  image shape; the two discriminating fields are optional, so each is an \<open>option\<close>
  (\<open>None\<close>: the object has no such property). The property \<open>id\<close> of every node is
  renamed per level, since \<open>id\<close> is the identity function of HOL.
\<close>

record LifeHistoryEvent =
  event_id :: string
  event_date :: string
  event_text :: "string option"
  event_image :: "string option"
  updated_at :: string
  user_id :: string

record LifeHistoryMonth =
  month_id :: string
  month :: int
  events :: "LifeHistoryEvent list"

record LifeHistoryYear =
  year_id :: string
  year :: int
  months :: "LifeHistoryMonth list"

record LifeHistoryDecade =
  decade_id :: string
  decade :: int
  years :: "LifeHistoryYear list"

type_synonym MonthlyLifeHistory = "LifeHistoryDecade list"

section \<open>JavaScript primitives used by the module\<close>

text \<open>\<open>Boolean(s)\<close> on a string: only the empty string is falsy.\<close>

definition js_Boolean :: "string \<Rightarrow> bool" where
  "js_Boolean s = (s \<noteq> [])"

text \<open>\<open>String(n)\<close> and template interpolation of an integral number: decimal digits, with a
  leading minus sign for a negative number.\<close>

definition digit_char :: "nat \<Rightarrow> char" where
  "digit_char n = char_of (48 + n)"

fun digits_of :: "nat \<Rightarrow> string" where
  "digits_of n = (if n < 10 then [digit_char n] else digits_of (n div 10) @ [digit_char (n mod 10)])"

declare digits_of.simps [simp del]

definition js_String :: "int \<Rightarrow> string" where
  "js_String n = (if n < 0 then CHR ''-'' # digits_of (nat (- n)) else digits_of (nat n))"

text \<open>
  \<open>Array.from({ length: n }, f)\<close> calls \<open>f\<close> at the indices \<open>0, 1, ..., n - 1\<close> in this
  order; a length that is not positive gives the empty array. The callbacks of the builder
  draw identifiers and read the clock, so the loop threads a state through the calls.
\<close>

fun array_from_loop :: "(nat \<Rightarrow> 's \<Rightarrow> 'a \<times> 's) \<Rightarrow> nat \<Rightarrow> nat \<Rightarrow> 's \<Rightarrow> 'a list \<times> 's" where
  "array_from_loop f 0 i s = ([], s)"
| "array_from_loop f (Suc k) i s =
     (case f i s of (x, s') \<Rightarrow>
        (case array_from_loop f k (Suc i) s' of (xs, s'') \<Rightarrow> (x # xs, s'')))"

definition Array_from :: "int \<Rightarrow> (nat \<Rightarrow> 's \<Rightarrow> 'a \<times> 's) \<Rightarrow> 's \<Rightarrow> 'a list \<times> 's" where
  "Array_from n f s = array_from_loop f (nat n) 0 s"

section \<open>Collaborators: the date library, the identifier source, the clock, the console\<close>

text \<open>
  The value \<open>dayjs(s)\<close>: an invalid date, whose \<open>year()\<close> and \<open>month()\<close> are \<open>NaN\<close>, or a
  date with its year, its month counted from 0 and its day.
\<close>

datatype Dayjs = InvalidDate | Date int int int

text \<open>
  The module imports \<open>dayjs\<close> and calls \<open>crypto.randomUUID()\<close>; neither is defined by it, so
  both are parameters of the model. \<open>randomUUID c k\<close> is the identifier of the \<open>k\<close>-th draw
  and \<open>now c k\<close> the text of \<open>dayjs().format()\<close> at the \<open>k\<close>-th reading of the clock.
\<close>

record collaborators =
  dayjs :: "string \<Rightarrow> Dayjs"
  format :: "Dayjs \<Rightarrow> string \<Rightarrow> string"
  randomUUID :: "nat \<Rightarrow> string"
  now :: "nat \<Rightarrow> string"

record world =
  uuid_calls :: nat
  clock_reads :: nat
  console :: "string list"

definition crypto_randomUUID :: "collaborators \<Rightarrow> world \<Rightarrow> string \<times> world" where
  "crypto_randomUUID c w = (randomUUID c (uuid_calls w), w\<lparr>uuid_calls := Suc (uuid_calls w)\<rparr>)"

definition dayjs_now_format :: "collaborators \<Rightarrow> world \<Rightarrow> string \<times> world" where
  "dayjs_now_format c w = (now c (clock_reads w), w\<lparr>clock_reads := Suc (clock_reads w)\<rparr>)"

definition console_error :: "string \<Rightarrow> world \<Rightarrow> world" where
  "console_error msg w = w\<lparr>console := console w @ [msg]\<rparr>"

text \<open>
  A reference instance of the collaborators, for evaluating the module on concrete inputs.
  It reads the canonical date strings \<open>YYYY-M-D\<close> (one or two digits for month and day,
  month 1 to 12, day 1 to 28), where the date library itself gives the same year, month and
  day; every other string is an invalid date here. It prints the two patterns the module
  uses.
\<close>

definition is_digit :: "char \<Rightarrow> bool" where
  "is_digit ch = (ch \<in> set ''0123456789'')"

definition number_of :: "string \<Rightarrow> int" where
  "number_of s = foldl (\<lambda>a ch. 10 * a + (int (of_char ch) - 48)) 0 s"

fun split_dash :: "string \<Rightarrow> string list" where
  "split_dash [] = [[]]"
| "split_dash (ch # s) =
     (if ch = CHR ''-'' then [] # split_dash s
      else (case split_dash s of [] \<Rightarrow> [[ch]] | p # ps \<Rightarrow> (ch # p) # ps))"

definition ref_dayjs :: "string \<Rightarrow> Dayjs" where
  "ref_dayjs s =
     (case split_dash s of
        [ys, ms, ds] \<Rightarrow>
          if length ys = 4 \<and> (length ms = 1 \<or> length ms = 2) \<and> (length ds = 1 \<or> length ds = 2)
             \<and> list_all is_digit (ys @ ms @ ds)
             \<and> 1 \<le> number_of ms \<and> number_of ms \<le> 12
             \<and> 1 \<le> number_of ds \<and> number_of ds \<le> 28
          then Date (number_of ys) (number_of ms - 1) (number_of ds)
          else InvalidDate
      | _ \<Rightarrow> InvalidDate)"

definition pad_start :: "nat \<Rightarrow> string \<Rightarrow> string" where
  "pad_start n s = replicate (n - length s) (CHR ''0'') @ s"

definition ref_format :: "Dayjs \<Rightarrow> string \<Rightarrow> string" where
  "ref_format d pattern =
     (case d of
        InvalidDate \<Rightarrow> ''Invalid Date''
      | Date y m0 dd \<Rightarrow>
          if pattern = ''YYYY-MM''
          then pad_start 4 (js_String y) @ ''-'' @ pad_start 2 (js_String (m0 + 1))
          else if pattern = ''YYYY-MM-DD''
          then pad_start 4 (js_String y) @ ''-'' @ pad_start 2 (js_String (m0 + 1))
                 @ ''-'' @ pad_start 2 (js_String dd)
          else pattern)"

definition ref_collaborators :: collaborators where
  "ref_collaborators =
     \<lparr>dayjs = ref_dayjs, format = ref_format,
      randomUUID = (\<lambda>k. ''uuid-'' @ js_String (int k)),
      now = (\<lambda>k. ''2024-01-01T00:00:'' @ pad_start 2 (js_String (int (k mod 60))))\<rparr>"

definition world0 :: world where
  "world0 = \<lparr>uuid_calls = 0, clock_reads = 0, console = []\<rparr>"

section \<open>The type guards\<close>

definition isLifeHistoryTextEvent :: "LifeHistoryEvent \<Rightarrow> bool" where
  "isLifeHistoryTextEvent e =
     (case event_text e of None \<Rightarrow> False | Some t \<Rightarrow> js_Boolean t)"

definition isLifeHistoryImageEvent :: "LifeHistoryEvent \<Rightarrow> bool" where
  "isLifeHistoryImageEvent e =
     (case event_image e of None \<Rightarrow> False | Some t \<Rightarrow> js_Boolean t)"

section \<open>The builder \<open>LifeHistory.initiate\<close>\<close>

text \<open>The innermost callback: one month with its placeholder event.\<close>

definition mk_month ::
  "collaborators \<Rightarrow> int \<Rightarrow> int \<Rightarrow> nat \<Rightarrow> world \<Rightarrow> LifeHistoryMonth \<times> world" where
  "mk_month c yr startMonth monthIndex w =
     (let mo = startMonth + int monthIndex in
      case crypto_randomUUID c w of (uuid, w1) \<Rightarrow>
      case dayjs_now_format c w1 of (stamp, w2) \<Rightarrow>
        (\<lparr>month_id = format c (dayjs c (js_String yr @ ''-'' @ js_String mo @ ''-01'')) ''YYYY-MM'',
          month = mo,
          events = [\<lparr>event_id = uuid,
                     event_date =
                       format c (dayjs c (js_String yr @ ''-'' @ js_String mo @ ''-15'')) ''YYYY-MM-DD'',
                     event_text = Some (js_String (int monthIndex)),
                     event_image = None,
                     updated_at = stamp,
                     user_id = ''string''\<rparr>]\<rparr>, w2))"

text \<open>The callback of the years of one decade.\<close>

definition mk_year ::
  "collaborators \<Rightarrow> int \<Rightarrow> int \<Rightarrow> int \<Rightarrow> int \<Rightarrow> nat \<Rightarrow> world \<Rightarrow> LifeHistoryYear \<times> world" where
  "mk_year c birthYear birthMonth maxAge startYearInDecade yearIndex w =
     (let yr = startYearInDecade + int yearIndex;
          startMonth = (if yr = birthYear then birthMonth else 1);
          endMonth = (if yr = birthYear + maxAge
                      then (if birthMonth - 1 = 0 then 12 else birthMonth - 1) else 12)
      in case Array_from (endMonth - startMonth + 1) (mk_month c yr startMonth) w of
           (ms, w') \<Rightarrow> (\<lparr>year_id = ''year-'' @ js_String yr, year = yr, months = ms\<rparr>, w'))"

text \<open>The callback of the decades.\<close>

definition mk_decade ::
  "collaborators \<Rightarrow> int \<Rightarrow> int \<Rightarrow> int \<Rightarrow> int \<Rightarrow> int \<Rightarrow> nat \<Rightarrow> world
     \<Rightarrow> LifeHistoryDecade \<times> world" where
  "mk_decade c birthYear birthMonth maxAge maxYear startDecade decadeIndex w =
     (let dec = startDecade + int decadeIndex;
          decadeStartYear = dec * 10;
          decadeEndYear = decadeStartYear + 9;
          startYearInDecade = max birthYear decadeStartYear;
          endYearInDecade = min maxYear decadeEndYear
      in case Array_from (endYearInDecade - startYearInDecade + 1)
                (mk_year c birthYear birthMonth maxAge startYearInDecade) w of
           (ys, w') \<Rightarrow>
             (\<lparr>decade_id = ''decade-'' @ js_String dec, decade = int decadeIndex + 1, years = ys\<rparr>,
              w'))"

text \<open>
  \<open>birthDate\<close> is \<open>string | null\<close>, with \<open>null\<close> the default. \<open>!birthDate\<close> holds of \<open>null\<close>
  and of the empty string. An invalid date has \<open>NaN\<close> for its year, so \<open>decadeCount\<close> is
  \<open>NaN\<close> and \<open>Array.from\<close> returns the empty array without calling its callback.
\<close>

definition js_falsy :: "string option \<Rightarrow> bool" where
  "js_falsy v = (case v of None \<Rightarrow> True | Some s \<Rightarrow> \<not> js_Boolean s)"

definition initiate ::
  "collaborators \<Rightarrow> string option \<Rightarrow> world \<Rightarrow> MonthlyLifeHistory \<times> world" where
  "initiate c birthDate w =
     (if js_falsy birthDate then ([], w)
      else (case birthDate of
              None \<Rightarrow> ([], w)
            | Some s \<Rightarrow>
                (case dayjs c s of
                   InvalidDate \<Rightarrow> ([], w)
                 | Date birthYear month0 day0 \<Rightarrow>
                     (let birthMonth = month0 + 1;
                          maxAge = 80;
                          maxYear = birthYear + maxAge;
                          startDecade = birthYear div 10;
                          endDecade = maxYear div 10;
                          decadeCount = endDecade - startDecade + 1
                      in Array_from decadeCount
                           (mk_decade c birthYear birthMonth maxAge maxYear startDecade) w))))"

section \<open>The mover \<open>LifeHistory.moveEvent\<close>\<close>

text \<open>\<open>findEntities\<close>: three nested loops, returning at the first month whose id matches.\<close>

fun find_in_months ::
  "string \<Rightarrow> LifeHistoryDecade \<Rightarrow> LifeHistoryYear \<Rightarrow> LifeHistoryMonth list
     \<Rightarrow> (LifeHistoryDecade \<times> LifeHistoryYear \<times> LifeHistoryMonth) option" where
  "find_in_months i d y [] = None"
| "find_in_months i d y (m # ms) =
     (if month_id m = i then Some (d, y, m) else find_in_months i d y ms)"

fun find_in_years ::
  "string \<Rightarrow> LifeHistoryDecade \<Rightarrow> LifeHistoryYear list
     \<Rightarrow> (LifeHistoryDecade \<times> LifeHistoryYear \<times> LifeHistoryMonth) option" where
  "find_in_years i d [] = None"
| "find_in_years i d (y # ys) =
     (case find_in_months i d y (months y) of
        Some r \<Rightarrow> Some r
      | None \<Rightarrow> find_in_years i d ys)"

fun findEntities ::
  "MonthlyLifeHistory \<Rightarrow> string
     \<Rightarrow> (LifeHistoryDecade \<times> LifeHistoryYear \<times> LifeHistoryMonth) option" where
  "findEntities [] i = None"
| "findEntities (d # ds) i =
     (case find_in_years i d (years d) of
        Some r \<Rightarrow> Some r
      | None \<Rightarrow> findEntities ds i)"

text \<open>The first pass of the mover: the event leaves the source month.\<close>

definition remove_from_source ::
  "string \<Rightarrow> string \<Rightarrow> string \<Rightarrow> string \<Rightarrow> MonthlyLifeHistory \<Rightarrow> MonthlyLifeHistory" where
  "remove_from_source sourceDecadeId sourceYearId idMonthSource eventId lifeHistory =
     map (\<lambda>d. if decade_id d \<noteq> sourceDecadeId then d
              else d\<lparr>years :=
                map (\<lambda>y. if year_id y \<noteq> sourceYearId then y
                         else y\<lparr>months :=
                           map (\<lambda>m. if month_id m \<noteq> idMonthSource then m
                                    else m\<lparr>events :=
                                      filter (\<lambda>e. event_id e \<noteq> eventId) (events m)\<rparr>)
                               (months y)\<rparr>)
                    (years d)\<rparr>)
         lifeHistory"

text \<open>The second pass: the updated event is appended to the target month.\<close>

definition add_to_target ::
  "string \<Rightarrow> string \<Rightarrow> string \<Rightarrow> LifeHistoryEvent \<Rightarrow> MonthlyLifeHistory \<Rightarrow> MonthlyLifeHistory" where
  "add_to_target targetDecadeId targetYearId idMonthTarget updatedEvent updatedLifeHistory =
     map (\<lambda>d. if decade_id d \<noteq> targetDecadeId then d
              else d\<lparr>years :=
                map (\<lambda>y. if year_id y \<noteq> targetYearId then y
                         else y\<lparr>months :=
                           map (\<lambda>m. if month_id m \<noteq> idMonthTarget then m
                                    else m\<lparr>events := events m @ [updatedEvent]\<rparr>)
                               (months y)\<rparr>)
                    (years d)\<rparr>)
         updatedLifeHistory"

definition moveEvent ::
  "collaborators \<Rightarrow> LifeHistoryEvent \<Rightarrow> MonthlyLifeHistory \<Rightarrow> LifeHistoryMonth \<Rightarrow> LifeHistoryMonth
     \<Rightarrow> world \<Rightarrow> MonthlyLifeHistory \<times> world" where
  "moveEvent c ev lifeHistory sourceMonth targetMonth w =
     (let eventId = event_id ev;
          idMonthSource = month_id sourceMonth;
          idMonthTarget = month_id targetMonth
      in case findEntities lifeHistory idMonthSource of
           None \<Rightarrow> (lifeHistory, console_error ''Source or target entities not found'' w)
         | Some (sourceDecade, sourceYear, sourceMonthFound) \<Rightarrow>
             (case findEntities lifeHistory idMonthTarget of
                None \<Rightarrow> (lifeHistory, console_error ''Source or target entities not found'' w)
              | Some (targetDecade, targetYear, targetMonthFound) \<Rightarrow>
                  (case find (\<lambda>e. event_id e = eventId) (events sourceMonthFound) of
                     None \<Rightarrow> (lifeHistory, console_error ''Event not found in source month'' w)
                   | Some eventToMove \<Rightarrow>
                       (let targetDate = dayjs c (month_id targetMonthFound @ ''-15'') in
                        case dayjs_now_format c w of (stamp, w') \<Rightarrow>
                          (let updatedEvent =
                                 eventToMove\<lparr>event_date := format c targetDate ''YYYY-MM-DD'',
                                             updated_at := stamp\<rparr>;
                               updatedLifeHistory =
                                 remove_from_source (decade_id sourceDecade) (year_id sourceYear)
                                   idMonthSource eventId lifeHistory
                           in (add_to_target (decade_id targetDecade) (year_id targetYear)
                                 idMonthTarget updatedEvent updatedLifeHistory, w'))))))"

section \<open>Observations on a life history\<close>

text \<open>
  The specification speaks of the months of a structure in document order, of its first and its last
  month, and of the order of two (year, month) pairs. A year node is observed as its calendar
  year with the month numbers below it.
\<close>

definition all_years :: "MonthlyLifeHistory \<Rightarrow> LifeHistoryYear list" where
  "all_years lh = concat (map years lh)"

definition all_months :: "MonthlyLifeHistory \<Rightarrow> LifeHistoryMonth list" where
  "all_months lh = concat (map months (all_years lh))"

definition emitted :: "MonthlyLifeHistory \<Rightarrow> (int \<times> int) list" where
  "emitted lh = concat (map (\<lambda>y. map (\<lambda>m. (year y, month m)) (months y)) (all_years lh))"

definition year_shape :: "LifeHistoryYear \<Rightarrow> int \<times> int list" where
  "year_shape y = (year y, map month (months y))"

definition shape :: "MonthlyLifeHistory \<Rightarrow> (int \<times> int list) list list" where
  "shape lh = map (\<lambda>d. map year_shape (years d)) lh"

text \<open>
  The calendar the proofs compare the builder with: the month range of a calendar year for a
  given birth year and birth month, and the years of the \<open>i\<close>-th decade from decade \<open>sd\<close> that
  lie between the years \<open>a\<close> and \<open>b\<close>.
\<close>

definition startMonth_of :: "int \<Rightarrow> int \<Rightarrow> int \<Rightarrow> int" where
  "startMonth_of birthYear birthMonth yr = (if yr = birthYear then birthMonth else 1)"

definition endMonth_of :: "int \<Rightarrow> int \<Rightarrow> int \<Rightarrow> int" where
  "endMonth_of birthYear birthMonth yr =
     (if yr = birthYear + 80 then (if birthMonth - 1 = 0 then 12 else birthMonth - 1) else 12)"

definition year_row :: "int \<Rightarrow> int \<Rightarrow> int \<Rightarrow> int \<times> int list" where
  "year_row birthYear birthMonth yr =
     (yr, [startMonth_of birthYear birthMonth yr..endMonth_of birthYear birthMonth yr])"

definition decade_years :: "int \<Rightarrow> int \<Rightarrow> int \<Rightarrow> nat \<Rightarrow> int list" where
  "decade_years a b sd i = [max a ((sd + int i) * 10)..min b ((sd + int i) * 10 + 9)]"

text \<open>
  The first month of the first year of the first decade, the last month of the last year of
  the last decade (\<open>None\<close> where a level is empty), and the lexicographic order on
  (year, month) pairs.
\<close>

definition first_month :: "MonthlyLifeHistory \<Rightarrow> (int \<times> int) option" where
  "first_month lh =
     (case lh of [] \<Rightarrow> None
      | d # _ \<Rightarrow> (case years d of [] \<Rightarrow> None
          | y # _ \<Rightarrow> (case months y of [] \<Rightarrow> None
              | m # _ \<Rightarrow> Some (year y, month m))))"

definition last_month :: "MonthlyLifeHistory \<Rightarrow> (int \<times> int) option" where
  "last_month lh =
     (if lh = [] then None
      else if years (last lh) = [] then None
      else if months (last (years (last lh))) = [] then None
      else Some (year (last (years (last lh))), month (last (months (last (years (last lh)))))))"

definition lex_less :: "int \<times> int \<Rightarrow> int \<times> int \<Rightarrow> bool" where
  "lex_less p q = (fst p < fst q \<or> (fst p = fst q \<and> snd p < snd q))"

text \<open>
  The mover finds a month through its id. \<open>lookup_month\<close> is the month of the structure
  with a given id, the first in document order. The remaining definitions name the two
  rewritings of the mover, the event it appends, and the path of ids above each month.
\<close>

definition lookup_month :: "MonthlyLifeHistory \<Rightarrow> string \<Rightarrow> LifeHistoryMonth option" where
  "lookup_month lh i = find (\<lambda>m. month_id m = i) (all_months lh)"

definition tagged :: "MonthlyLifeHistory \<Rightarrow> (string \<times> string \<times> LifeHistoryMonth) list" where
  "tagged lh =
     concat (map (\<lambda>d. concat (map (\<lambda>y. map (\<lambda>m. (decade_id d, year_id y, m)) (months y))
                                   (years d))) lh)"

definition deep_map ::
  "string \<Rightarrow> string \<Rightarrow> string \<Rightarrow> (LifeHistoryMonth \<Rightarrow> LifeHistoryMonth)
     \<Rightarrow> MonthlyLifeHistory \<Rightarrow> MonthlyLifeHistory" where
  "deep_map did yid mid g lh =
     map (\<lambda>d. if decade_id d \<noteq> did then d
              else d\<lparr>years :=
                map (\<lambda>y. if year_id y \<noteq> yid then y
                         else y\<lparr>months :=
                           map (\<lambda>m. if month_id m \<noteq> mid then m else g m) (months y)\<rparr>)
                    (years d)\<rparr>)
         lh"

definition retag ::
  "string \<Rightarrow> string \<Rightarrow> string \<Rightarrow> (LifeHistoryMonth \<Rightarrow> LifeHistoryMonth)
     \<Rightarrow> string \<times> string \<times> LifeHistoryMonth \<Rightarrow> string \<times> string \<times> LifeHistoryMonth" where
  "retag did yid mid g t =
     (case t of (di, yi, m) \<Rightarrow>
        (di, yi, if di = did \<and> yi = yid \<and> month_id m = mid then g m else m))"

definition ids_of ::
  "LifeHistoryDecade \<times> LifeHistoryYear \<times> LifeHistoryMonth \<Rightarrow> string \<times> string \<times> LifeHistoryMonth" where
  "ids_of t = (decade_id (fst t), year_id (fst (snd t)), snd (snd t))"

definition tags_of_decade ::
  "LifeHistoryDecade \<Rightarrow> LifeHistoryYear list \<Rightarrow> (string \<times> string \<times> LifeHistoryMonth) list" where
  "tags_of_decade d ys = concat (map (\<lambda>y. map (\<lambda>m. (decade_id d, year_id y, m)) (months y)) ys)"

definition drop_event :: "string \<Rightarrow> LifeHistoryMonth \<Rightarrow> LifeHistoryMonth" where
  "drop_event eventId m = m\<lparr>events := filter (\<lambda>e. event_id e \<noteq> eventId) (events m)\<rparr>"

definition push_event :: "LifeHistoryEvent \<Rightarrow> LifeHistoryMonth \<Rightarrow> LifeHistoryMonth" where
  "push_event e m = m\<lparr>events := events m @ [e]\<rparr>"

definition updated_event ::
  "collaborators \<Rightarrow> world \<Rightarrow> string \<Rightarrow> LifeHistoryEvent \<Rightarrow> LifeHistoryEvent" where
  "updated_event c w targetId e =
     e\<lparr>event_date := format c (dayjs c (targetId @ ''-15'')) ''YYYY-MM-DD'',
       updated_at := now c (clock_reads w)\<rparr>"

definition on_path_month :: "string \<Rightarrow> string \<Rightarrow> LifeHistoryMonth \<Rightarrow> bool" where
  "on_path_month sid tid m = (month_id m = sid \<or> month_id m = tid)"

definition on_path_year :: "string \<Rightarrow> string \<Rightarrow> LifeHistoryYear \<Rightarrow> bool" where
  "on_path_year sid tid y = list_ex (on_path_month sid tid) (months y)"

definition on_path_decade :: "string \<Rightarrow> string \<Rightarrow> LifeHistoryDecade \<Rightarrow> bool" where
  "on_path_decade sid tid d = list_ex (on_path_year sid tid) (years d)"

definition frame_month :: "string \<Rightarrow> string \<Rightarrow> LifeHistoryMonth \<Rightarrow> LifeHistoryMonth \<Rightarrow> bool" where
  "frame_month sid tid m m' = (\<not> on_path_month sid tid m \<longrightarrow> m' = m)"

definition frame_year :: "string \<Rightarrow> string \<Rightarrow> LifeHistoryYear \<Rightarrow> LifeHistoryYear \<Rightarrow> bool" where
  "frame_year sid tid y y' =
     ((\<not> on_path_year sid tid y \<longrightarrow> y' = y)
      \<and> list_all2 (frame_month sid tid) (months y) (months y'))"

definition frame_decade :: "string \<Rightarrow> string \<Rightarrow> LifeHistoryDecade \<Rightarrow> LifeHistoryDecade \<Rightarrow> bool" where
  "frame_decade sid tid d d' =
     ((\<not> on_path_decade sid tid d \<longrightarrow> d' = d)
      \<and> list_all2 (frame_year sid tid) (years d) (years d'))"

definition frame :: "string \<Rightarrow> string \<Rightarrow> MonthlyLifeHistory \<Rightarrow> MonthlyLifeHistory \<Rightarrow> bool" where
  "frame sid tid lh lh' = list_all2 (frame_decade sid tid) lh lh'"

section \<open>A small life history for evaluation\<close>

definition example_event :: "string \<Rightarrow> string \<Rightarrow> string \<Rightarrow> LifeHistoryEvent" where
  "example_event i d t =
     \<lparr>event_id = i, event_date = d, event_text = Some t, event_image = None,
      updated_at = ''2023-05-01T10:00:00'', user_id = ''string''\<rparr>"

definition june_2000 :: LifeHistoryMonth where
  "june_2000 =
     \<lparr>month_id = ''2000-06'', month = 6,
      events = [example_event ''e1'' ''2000-06-15'' ''0'',
                example_event ''e2'' ''2000-06-15'' ''first steps'']\<rparr>"

definition july_2000 :: LifeHistoryMonth where
  "july_2000 =
     \<lparr>month_id = ''2000-07'', month = 7, events = [example_event ''e3'' ''2000-07-15'' ''1'']\<rparr>"

definition january_2001 :: LifeHistoryMonth where
  "january_2001 =
     \<lparr>month_id = ''2001-01'', month = 1, events = [example_event ''e4'' ''2001-01-15'' ''0'']\<rparr>"

definition january_2010 :: LifeHistoryMonth where
  "january_2010 =
     \<lparr>month_id = ''2010-01'', month = 1, events = [example_event ''e5'' ''2010-01-15'' ''0'']\<rparr>"

definition march_1999 :: LifeHistoryMonth where
  "march_1999 = \<lparr>month_id = ''1999-03'', month = 3, events = []\<rparr>"

definition example_history :: MonthlyLifeHistory where
  "example_history =
     [\<lparr>decade_id = ''decade-200'', decade = 1,
       years = [\<lparr>year_id = ''year-2000'', year = 2000, months = [june_2000, july_2000]\<rparr>,
                \<lparr>year_id = ''year-2001'', year = 2001, months = [january_2001]\<rparr>]\<rparr>,
      \<lparr>decade_id = ''decade-201'', decade = 2,
       years = [\<lparr>year_id = ''year-2010'', year = 2010, months = [january_2010]\<rparr>]\<rparr>]"

section \<open>The builder: the calendar it emits\<close>

lemma array_from_loop_map:
  assumes "\<And>i s. P (fst (f i s)) = g i"
  shows "map P (fst (array_from_loop f k i s)) = map g [i..<i + k]"
proof (induction k arbitrary: i s)
  case 0
  show ?case by simp
next
  case (Suc k)
  obtain x s' where fx: "f i s = (x, s')" by (cases "f i s")
  obtain xs s'' where rest: "array_from_loop f k (Suc i) s' = (xs, s'')"
    by (cases "array_from_loop f k (Suc i) s'")
  have "P x = g i" using assms [of i s] fx by simp
  moreover have "map P xs = map g [Suc i..<Suc i + k]" using Suc [of "Suc i" s'] rest by simp
  moreover have "[i..<i + Suc k] = i # [Suc i..<Suc i + k]" by (simp add: upt_conv_Cons)
  ultimately show ?case using fx rest by simp
qed

lemma Array_from_map:
  assumes "\<And>i s. P (fst (f i s)) = g i"
  shows "map P (fst (Array_from n f s)) = map g [0..<nat n]"
  using array_from_loop_map [of P f g "nat n" 0 s, OF assms] by (simp add: Array_from_def)

lemma map_add_upt_upto: "map (\<lambda>i. a + int i) [0..<nat (b - a + 1)] = [a..b]"
proof (induction "nat (b - a + 1)" arbitrary: b)
  case 0
  then show ?case by simp
next
  case (Suc k)
  then have ab: "a \<le> b" and k: "k = nat (b - 1 - a + 1)" by linarith+
  have n: "nat (b - a + 1) = Suc (nat (b - 1 - a + 1))" using ab by linarith
  have "[a..b] = [a..b - 1] @ [b]" using ab by (simp add: upto_rec2)
  moreover have "a + int (nat (b - 1 - a + 1)) = b" using ab by simp
  ultimately show ?case using Suc.hyps(1) [OF k] by (simp add: n)
qed

lemma month_mk_month: "month (fst (mk_month c yr sm i w)) = sm + int i"
  by (simp add: mk_month_def Let_def crypto_randomUUID_def dayjs_now_format_def)

lemma year_shape_mk_year:
  "year_shape (fst (mk_year c birthYear birthMonth 80 sy i w))
     = year_row birthYear birthMonth (sy + int i)"
proof -
  define yr where "yr = sy + int i"
  define sm where "sm = startMonth_of birthYear birthMonth yr"
  define em where "em = endMonth_of birthYear birthMonth yr"
  obtain ms w' where af: "Array_from (em - sm + 1) (mk_month c yr sm) w = (ms, w')"
    by (cases "Array_from (em - sm + 1) (mk_month c yr sm) w")
  have "map month ms = map (\<lambda>i. sm + int i) [0..<nat (em - sm + 1)]"
    using Array_from_map [of month "mk_month c yr sm" "\<lambda>i. sm + int i" "em - sm + 1" w]
      af by (simp add: month_mk_month)
  then have "map month ms = [sm..em]" by (simp add: map_add_upt_upto)
  moreover have "mk_year c birthYear birthMonth 80 sy i w
      = (case Array_from (em - sm + 1) (mk_month c yr sm) w of
           (ms, w') \<Rightarrow> (\<lparr>year_id = ''year-'' @ js_String yr, year = yr, months = ms\<rparr>, w'))"
    by (simp only: mk_year_def Let_def yr_def sm_def em_def startMonth_of_def endMonth_of_def)
  then have "mk_year c birthYear birthMonth 80 sy i w
      = (\<lparr>year_id = ''year-'' @ js_String yr, year = yr, months = ms\<rparr>, w')"
    using af by simp
  ultimately show ?thesis
    by (simp add: year_shape_def year_row_def yr_def sm_def em_def)
qed

lemma shape_mk_decade:
  "map year_shape (years (fst (mk_decade c birthYear birthMonth 80 maxYear sd i w)))
     = map (year_row birthYear birthMonth)
         [max birthYear ((sd + int i) * 10)..min maxYear ((sd + int i) * 10 + 9)]"
proof -
  define sy where "sy = max birthYear ((sd + int i) * 10)"
  define ey where "ey = min maxYear ((sd + int i) * 10 + 9)"
  obtain ys w' where af:
    "Array_from (ey - sy + 1) (mk_year c birthYear birthMonth 80 sy) w = (ys, w')"
    by (cases "Array_from (ey - sy + 1) (mk_year c birthYear birthMonth 80 sy) w")
  have "map year_shape ys
      = map (\<lambda>i. year_row birthYear birthMonth (sy + int i)) [0..<nat (ey - sy + 1)]"
    using Array_from_map [of year_shape "mk_year c birthYear birthMonth 80 sy"
        "\<lambda>i. year_row birthYear birthMonth (sy + int i)" "ey - sy + 1" w] af
    by (simp add: year_shape_mk_year)
  also have "\<dots> = map (year_row birthYear birthMonth) (map (\<lambda>i. sy + int i) [0..<nat (ey - sy + 1)])"
    by simp
  also have "\<dots> = map (year_row birthYear birthMonth) [sy..ey]"
    by (simp only: map_add_upt_upto)
  finally have "map year_shape ys = map (year_row birthYear birthMonth) [sy..ey]" .
  moreover have "years (fst (mk_decade c birthYear birthMonth 80 maxYear sd i w)) = ys"
    using af by (simp add: mk_decade_def Let_def sy_def ey_def)
  ultimately show ?thesis by (simp add: sy_def ey_def)
qed

lemma decade_chunks_Suc:
  "concat (map (decade_years a b (a div 10)) [0..<Suc n])
     = [a..min b ((a div 10 + int n) * 10 + 9)]"
proof (induction n)
  case 0
  have "max a (a div 10 * 10) = a" by linarith
  then show ?case by (simp add: decade_years_def)
next
  case (Suc n)
  define j where "j = (a div 10 + int n) * 10 + 9"
  have a9: "a \<le> a div 10 * 10 + 9" by linarith
  have j: "j = a div 10 * 10 + int n * 10 + 9" unfolding j_def by (simp add: distrib_right)
  have aj: "a \<le> j" using a9 j by linarith
  have "(a div 10 + int (Suc n)) * 10 = j + 1" using j by (simp add: distrib_right)
  then have mx: "max a ((a div 10 + int (Suc n)) * 10) = j + 1" using aj by simp
  have nx: "(a div 10 + int (Suc n)) * 10 + 9 = j + 10" unfolding j_def by simp
  have last_chunk: "decade_years a b (a div 10) (Suc n) = [j + 1..min b (j + 10)]"
    by (simp only: decade_years_def mx nx)
  have "concat (map (decade_years a b (a div 10)) [0..<Suc (Suc n)])
      = concat (map (decade_years a b (a div 10)) [0..<Suc n])
          @ decade_years a b (a div 10) (Suc n)"
    by simp
  then have step: "concat (map (decade_years a b (a div 10)) [0..<Suc (Suc n)])
      = [a..min b j] @ [j + 1..min b (j + 10)]"
    by (simp only: Suc last_chunk j_def)
  have fin: "[a..min b j] @ [j + 1..min b (j + 10)] = [a..min b (j + 10)]"
  proof (cases "b \<le> j")
    case True
    then show ?thesis by simp
  next
    case False
    then have "[a..min b (j + 10)] = [a..j] @ [j + 1..min b (j + 10)]"
      using aj by (intro upto_split2) auto
    then show ?thesis using False by simp
  qed
  show ?case by (simp only: step fin nx)
qed

lemma decade_chunks:
  assumes "a \<le> b"
  shows "concat (map (decade_years a b (a div 10)) [0..<nat (b div 10 - a div 10 + 1)]) = [a..b]"
proof -
  have le: "a div 10 \<le> b div 10" using assms by (rule zdiv_mono1) simp
  then have n: "nat (b div 10 - a div 10 + 1) = Suc (nat (b div 10 - a div 10))" by linarith
  have "(a div 10 + int (nat (b div 10 - a div 10))) * 10 + 9 = b div 10 * 10 + 9"
    using le by simp
  moreover have "min b (b div 10 * 10 + 9) = b" by linarith
  ultimately show ?thesis by (simp only: n decade_chunks_Suc)
qed

lemma shape_initiate:
  assumes "s \<noteq> []" and "dayjs c s = Date birthYear month0 day0"
  shows "shape (fst (initiate c (Some s) w))
     = map (\<lambda>i. map (year_row birthYear (month0 + 1))
                  (decade_years birthYear (birthYear + 80) (birthYear div 10) i))
         [0..<nat ((birthYear + 80) div 10 - birthYear div 10 + 1)]"
proof -
  have "shape (fst (Array_from n
          (mk_decade c birthYear (month0 + 1) 80 (birthYear + 80) (birthYear div 10)) w))
      = map (\<lambda>i. map (year_row birthYear (month0 + 1))
                  (decade_years birthYear (birthYear + 80) (birthYear div 10) i)) [0..<nat n]"
    for n
    unfolding shape_def decade_years_def
    by (rule Array_from_map) (rule shape_mk_decade)
  then show ?thesis
    using assms by (simp add: initiate_def js_falsy_def js_Boolean_def Let_def)
qed

lemma rows_initiate:
  assumes "s \<noteq> []" and "dayjs c s = Date birthYear month0 day0"
  shows "map year_shape (all_years (fst (initiate c (Some s) w)))
     = map (year_row birthYear (month0 + 1)) [birthYear..birthYear + 80]"
proof -
  have "map year_shape (all_years lh) = concat (shape lh)" for lh
    by (simp add: all_years_def shape_def map_concat comp_def)
  then have "map year_shape (all_years (fst (initiate c (Some s) w)))
      = concat (map (\<lambda>i. map (year_row birthYear (month0 + 1))
                  (decade_years birthYear (birthYear + 80) (birthYear div 10) i))
         [0..<nat ((birthYear + 80) div 10 - birthYear div 10 + 1)])"
    by (simp only: shape_initiate [OF assms])
  also have "\<dots> = map (year_row birthYear (month0 + 1))
      (concat (map (decade_years birthYear (birthYear + 80) (birthYear div 10))
         [0..<nat ((birthYear + 80) div 10 - birthYear div 10 + 1)]))"
    by (simp add: map_concat comp_def)
  also have "\<dots> = map (year_row birthYear (month0 + 1)) [birthYear..birthYear + 80]"
    by (simp only: decade_chunks [of birthYear "birthYear + 80", simplified])
  finally show ?thesis .
qed

lemma map_eq_snoc_last:
  assumes "map f xs = ys @ [z]"
  shows "xs \<noteq> [] \<and> f (last xs) = z"
proof -
  have ne: "xs \<noteq> []" using assms by auto
  then have "f (last xs) = last (map f xs)" by (simp add: last_map)
  then show ?thesis using ne assms by simp
qed

lemma last_month_shape:
  assumes "shape lh = rs @ [r @ [(y, ms @ [m])]]"
  shows "last_month lh = Some (y, m)"
proof -
  have d: "lh \<noteq> [] \<and> map year_shape (years (last lh)) = r @ [(y, ms @ [m])]"
    using map_eq_snoc_last [OF assms [unfolded shape_def]] .
  then have yr: "years (last lh) \<noteq> [] \<and> year_shape (last (years (last lh))) = (y, ms @ [m])"
    using map_eq_snoc_last [of year_shape "years (last lh)" r "(y, ms @ [m])"] by simp
  then have "map month (months (last (years (last lh)))) = ms @ [m]"
    and y: "year (last (years (last lh))) = y"
    by (simp_all add: year_shape_def)
  then have "months (last (years (last lh))) \<noteq> []
      \<and> month (last (months (last (years (last lh))))) = m"
    using map_eq_snoc_last [of month "months (last (years (last lh)))" ms m] by simp
  then show ?thesis using d yr y by (simp add: last_month_def)
qed

lemma first_month_shape:
  assumes "shape lh = ((y, m # ms) # r) # rs"
  shows "first_month lh = Some (y, m)"
  using assms
  by (auto simp: first_month_def shape_def year_shape_def split: list.splits)

lemma emitted_rows:
  "emitted lh = concat (map (\<lambda>(y, ms). map (Pair y) ms) (map year_shape (all_years lh)))"
  by (simp add: emitted_def year_shape_def comp_def)

lemma length_all_months_rows:
  "length (all_months lh) = sum_list (map (\<lambda>(y, ms). length ms) (map year_shape (all_years lh)))"
  by (simp add: all_months_def year_shape_def comp_def length_concat)

lemma count_months_initiate:
  assumes "s \<noteq> []" and "dayjs c s = Date birthYear (birthMonth - 1) day0"
    and "1 \<le> birthMonth" and "birthMonth \<le> 12"
  shows "length (all_months (fst (initiate c (Some s) w)))
     = (if birthMonth = 1 then 972 else 960)"
proof -
  define cnt where "cnt = (\<lambda>yr. case year_row birthYear birthMonth yr of (y, ms) \<Rightarrow> length ms)"
  have rows: "map year_shape (all_years (fst (initiate c (Some s) w)))
      = map (year_row birthYear birthMonth) [birthYear..birthYear + 80]"
    using rows_initiate [OF assms(1,2), of w] by simp
  have split: "[birthYear..birthYear + 80]
      = birthYear # [birthYear + 1..birthYear + 79] @ [birthYear + 80]"
  proof -
    have "[birthYear..birthYear + 80] = birthYear # [birthYear + 1..birthYear + 80]"
      by (simp add: upto_rec1)
    moreover have "[birthYear + 1..birthYear + 80] = [birthYear + 1..birthYear + 79] @ [birthYear + 80]"
      by (simp add: upto_rec2)
    ultimately show ?thesis by simp
  qed
  have first: "cnt birthYear = nat (13 - birthMonth)"
    using assms(3,4) by (simp add: cnt_def year_row_def startMonth_of_def endMonth_of_def)
  have final: "cnt (birthYear + 80) = (if birthMonth = 1 then 12 else nat (birthMonth - 1))"
    using assms(3,4) by (simp add: cnt_def year_row_def startMonth_of_def endMonth_of_def)
  have "cnt yr = 12" if "yr \<in> set [birthYear + 1..birthYear + 79]" for yr
    using that by (simp add: cnt_def year_row_def startMonth_of_def endMonth_of_def)
  then have meq: "map cnt [birthYear + 1..birthYear + 79]
      = map (\<lambda>_. 12) [birthYear + 1..birthYear + 79]"
    by (intro map_cong) auto
  have middle: "sum_list (map cnt [birthYear + 1..birthYear + 79]) = 79 * 12"
    by (simp only: meq) (simp add: sum_list_triv)
  have "length (all_months (fst (initiate c (Some s) w)))
      = sum_list (map cnt [birthYear..birthYear + 80])"
    by (simp add: length_all_months_rows rows cnt_def comp_def)
  also have "\<dots> = cnt birthYear + sum_list (map cnt [birthYear + 1..birthYear + 79])
      + cnt (birthYear + 80)"
    by (simp only: split) simp
  also have "\<dots> = (if birthMonth = 1 then 972 else 960)"
  proof -
    have "nat (13 - birthMonth) + nat (birthMonth - 1) = 12" using assms(3,4) by linarith
    then show ?thesis by (simp add: first final middle)
  qed
  finally show ?thesis .
qed

lemma last_month_initiate:
  assumes "s \<noteq> []" and "dayjs c s = Date birthYear (birthMonth - 1) day0"
    and "1 \<le> birthMonth" and "birthMonth \<le> 12"
  shows "last_month (fst (initiate c (Some s) w))
     = Some (birthYear + 80, if birthMonth = 1 then 12 else birthMonth - 1)"
proof -
  define em where "em = (if birthMonth = 1 then 12 else birthMonth - 1)"
  define k where "k = nat ((birthYear + 80) div 10 - birthYear div 10)"
  define F where "F = (\<lambda>i. map (year_row birthYear birthMonth)
                  (decade_years birthYear (birthYear + 80) (birthYear div 10) i))"
  have le: "birthYear div 10 \<le> (birthYear + 80) div 10" by (rule zdiv_mono1) simp_all
  then have n: "nat ((birthYear + 80) div 10 - birthYear div 10 + 1) = Suc k"
    unfolding k_def by linarith
  have sh: "shape (fst (initiate c (Some s) w)) = map F [0..<k] @ [F k]"
    using shape_initiate [OF assms(1,2), of w] by (simp add: n F_def)
  have "(birthYear div 10 + int k) * 10 = (birthYear + 80) div 10 * 10"
    using le unfolding k_def by simp
  then have "decade_years birthYear (birthYear + 80) (birthYear div 10) k
      = [max birthYear ((birthYear + 80) div 10 * 10)..birthYear + 80]"
    unfolding decade_years_def by (simp add: min_def)
  moreover have "max birthYear ((birthYear + 80) div 10 * 10) \<le> birthYear + 80" by linarith
  ultimately have "decade_years birthYear (birthYear + 80) (birthYear div 10) k
      = [max birthYear ((birthYear + 80) div 10 * 10)..birthYear + 80 - 1] @ [birthYear + 80]"
    by (simp add: upto_rec2)
  then obtain ys where Fk: "F k = map (year_row birthYear birthMonth) ys
      @ [year_row birthYear birthMonth (birthYear + 80)]"
    unfolding F_def by simp
  have "1 \<le> em" using assms(3,4) by (simp add: em_def)
  then have "[1..em] = [1..em - 1] @ [em]" by (simp add: upto_rec2)
  then have "year_row birthYear birthMonth (birthYear + 80) = (birthYear + 80, [1..em - 1] @ [em])"
    by (simp add: year_row_def startMonth_of_def endMonth_of_def em_def)
  then have "shape (fst (initiate c (Some s) w))
      = map F [0..<k] @ [map (year_row birthYear birthMonth) ys
          @ [(birthYear + 80, [1..em - 1] @ [em])]]"
    using sh Fk by simp
  then show ?thesis unfolding em_def [symmetric] by (rule last_month_shape)
qed

lemma first_month_initiate:
  assumes "s \<noteq> []" and "dayjs c s = Date birthYear (birthMonth - 1) day0"
    and "1 \<le> birthMonth" and "birthMonth \<le> 12"
  shows "first_month (fst (initiate c (Some s) w)) = Some (birthYear, birthMonth)"
proof -
  define F where "F = (\<lambda>i. map (year_row birthYear birthMonth)
                  (decade_years birthYear (birthYear + 80) (birthYear div 10) i))"
  have le: "birthYear div 10 \<le> (birthYear + 80) div 10" by (rule zdiv_mono1) simp_all
  then obtain k where n: "nat ((birthYear + 80) div 10 - birthYear div 10 + 1) = Suc k"
    by (metis Suc_nat_eq_nat_zadd1 add.commute diff_ge_0_iff_ge)
  have "[0..<Suc k] = 0 # [1..<Suc k]" by (simp add: upt_conv_Cons del: upt_Suc)
  then have "map F [0..<Suc k] = F 0 # map F [1..<Suc k]" by (simp only: list.map)
  moreover have "shape (fst (initiate c (Some s) w)) = map F [0..<Suc k]"
    using shape_initiate [OF assms(1,2), of w] by (simp only: n F_def) simp
  ultimately have sh: "shape (fst (initiate c (Some s) w)) = F 0 # map F [1..<Suc k]"
    by (simp only:)
  have "max birthYear (birthYear div 10 * 10) = birthYear" by linarith
  moreover have "birthYear \<le> min (birthYear + 80) (birthYear div 10 * 10 + 9)" by linarith
  ultimately have "decade_years birthYear (birthYear + 80) (birthYear div 10) 0
      = birthYear # [birthYear + 1..min (birthYear + 80) (birthYear div 10 * 10 + 9)]"
    unfolding decade_years_def by (simp add: upto_rec1)
  then obtain ys where F0: "F 0 = year_row birthYear birthMonth birthYear
      # map (year_row birthYear birthMonth) ys"
    unfolding F_def by simp
  have "year_row birthYear birthMonth birthYear = (birthYear, birthMonth # [birthMonth + 1..12])"
    using assms(4) by (simp add: year_row_def startMonth_of_def endMonth_of_def upto_rec1)
  then have "shape (fst (initiate c (Some s) w))
      = ((birthYear, birthMonth # [birthMonth + 1..12]) # map (year_row birthYear birthMonth) ys)
          # map F [1..<Suc k]"
    using sh F0 by simp
  then show ?thesis by (rule first_month_shape)
qed

lemma emitted_initiate:
  assumes "s \<noteq> []" and "dayjs c s = Date birthYear (birthMonth - 1) day0"
    and "1 \<le> birthMonth" and "birthMonth \<le> 12"
  shows "\<exists>rest. emitted (fst (initiate c (Some s) w)) = (birthYear, birthMonth) # rest
            \<and> (\<forall>p \<in> set rest. lex_less (birthYear, birthMonth) p)"
proof -
  define row where "row = (\<lambda>yr. case year_row birthYear birthMonth yr of (y, ms) \<Rightarrow> map (Pair y) ms)"
  define rest where "rest = map (Pair birthYear) [birthMonth + 1..12]
      @ concat (map row [birthYear + 1..birthYear + 80])"
  have rows: "map year_shape (all_years (fst (initiate c (Some s) w)))
      = map (year_row birthYear birthMonth) [birthYear..birthYear + 80]"
    using rows_initiate [OF assms(1,2), of w] by simp
  have "emitted (fst (initiate c (Some s) w)) = concat (map row [birthYear..birthYear + 80])"
    by (simp add: emitted_rows rows row_def comp_def)
  also have "\<dots> = row birthYear @ concat (map row [birthYear + 1..birthYear + 80])"
    by (simp add: upto_rec1 [of birthYear "birthYear + 80"])
  also have "row birthYear = (birthYear, birthMonth) # map (Pair birthYear) [birthMonth + 1..12]"
    using assms(4) by (simp add: row_def year_row_def startMonth_of_def endMonth_of_def upto_rec1)
  finally have e: "emitted (fst (initiate c (Some s) w)) = (birthYear, birthMonth) # rest"
    by (simp add: rest_def)
  have "lex_less (birthYear, birthMonth) p" if "p \<in> set rest" for p
  proof -
    from that consider "p \<in> set (map (Pair birthYear) [birthMonth + 1..12])"
      | yr where "birthYear + 1 \<le> yr" and "p \<in> set (row yr)"
      unfolding rest_def by auto
    then show ?thesis
    proof cases
      case 1
      then show ?thesis by (auto simp: lex_less_def)
    next
      case 2
      then show ?thesis by (auto simp: lex_less_def row_def year_row_def)
    qed
  qed
  then show ?thesis using e by blast
qed

section \<open>The builder: first month, last month, number of months\<close>

text \<open>
  A birth date is valid when it is a non-empty string that the date library reads as a date
  whose month, counted from 0, is \<open>birthMonth - 1\<close> with \<open>birthMonth\<close> from 1 to 12.
\<close>

text \<open>
  C1, as amended. For every valid birth date the structure returned by
  \<open>LifeHistory.initiate\<close> holds \<open>80 * 12 = 960\<close> months in total when the birth month is
  February or later, and \<open>81 * 12 = 972\<close> months when the birth month is January (the final
  year then runs through December).
\<close>

theorem initiate_total_months:
  assumes "s \<noteq> []" and "dayjs c s = Date birthYear (birthMonth - 1) day0"
    and "1 \<le> birthMonth" and "birthMonth \<le> 12"
  shows "length (all_months (fst (initiate c (Some s) w)))
     = (if birthMonth = 1 then 81 * 12 else 80 * 12)"
  using count_months_initiate [OF assms, of w] by simp

theorem initiate_total_months_witness:
  "''2000-06-15'' \<noteq> [] \<and> dayjs ref_collaborators ''2000-06-15'' = Date 2000 (6 - 1) 15
   \<and> (1::int) \<le> 6 \<and> (6::int) \<le> 12
   \<and> length (all_months (fst (initiate ref_collaborators (Some ''2000-06-15'') world0))) = 960"
  using initiate_total_months [of "''2000-06-15''" ref_collaborators 2000 6 15 world0]
  by (simp add: ref_collaborators_def ref_dayjs_def is_digit_def number_of_def)

text \<open>
  The count of the specification (961 months for every birth date, 961 for
  \<open>"2000-06-15"\<close>) fails on the example of the specification itself: June to December of 2000 are 7 months, the 79
  years 2001 to 2079 are 948 months, January to May of 2080 are 5 months.
\<close>

theorem initiate_total_months_counterexample:
  "length (all_months (fst (initiate ref_collaborators (Some ''2000-06-15'') world0))) \<noteq> 961"
  using count_months_initiate [of "''2000-06-15''" ref_collaborators 2000 6 15 world0]
  by (simp add: ref_collaborators_def ref_dayjs_def is_digit_def number_of_def)

text \<open>
  C2. For every valid birth date with birth year \<open>BY\<close> and birth month \<open>BM\<close>, the last month
  of the last year of the last decade returned by \<open>LifeHistory.initiate\<close> is
  \<open>(BY + 80, BM - 1)\<close> when \<open>BM \<ge> 2\<close> and \<open>(BY + 80, 12)\<close> when \<open>BM = 1\<close>.
\<close>

theorem initiate_last_month:
  assumes "s \<noteq> []" and "dayjs c s = Date birthYear (birthMonth - 1) day0"
    and "1 \<le> birthMonth" and "birthMonth \<le> 12"
  shows "last_month (fst (initiate c (Some s) w))
     = (if 2 \<le> birthMonth then Some (birthYear + 80, birthMonth - 1)
        else Some (birthYear + 80, 12))"
  using last_month_initiate [OF assms, of w] assms(3) by auto

theorem initiate_last_month_witness:
  "''2000-06-15'' \<noteq> [] \<and> dayjs ref_collaborators ''2000-06-15'' = Date 2000 (6 - 1) 15
   \<and> (1::int) \<le> 6 \<and> (6::int) \<le> 12
   \<and> last_month (fst (initiate ref_collaborators (Some ''2000-06-15'') world0)) = Some (2080, 5)
   \<and> dayjs ref_collaborators ''1990-01-20'' = Date 1990 (1 - 1) 20
   \<and> last_month (fst (initiate ref_collaborators (Some ''1990-01-20'') world0)) = Some (2070, 12)"
  using initiate_last_month [of "''2000-06-15''" ref_collaborators 2000 6 15 world0]
    initiate_last_month [of "''1990-01-20''" ref_collaborators 1990 1 20 world0]
  by (simp add: ref_collaborators_def ref_dayjs_def is_digit_def number_of_def)

text \<open>
  C3. For every valid birth date with birth year \<open>BY\<close> and birth month \<open>BM\<close>, the first month
  of the first year of the first decade returned by \<open>LifeHistory.initiate\<close> is \<open>(BY, BM)\<close>;
  it is the first of the emitted months, and every other emitted (year, month) is strictly
  greater in the lexicographic order.
\<close>

theorem initiate_first_month:
  assumes "s \<noteq> []" and "dayjs c s = Date birthYear (birthMonth - 1) day0"
    and "1 \<le> birthMonth" and "birthMonth \<le> 12"
  shows "first_month (fst (initiate c (Some s) w)) = Some (birthYear, birthMonth)
     \<and> (\<exists>rest. emitted (fst (initiate c (Some s) w)) = (birthYear, birthMonth) # rest
            \<and> (\<forall>p \<in> set rest. lex_less (birthYear, birthMonth) p))"
  using first_month_initiate [OF assms, of w] emitted_initiate [OF assms, of w] by simp

theorem initiate_first_month_witness:
  "''2000-06-15'' \<noteq> [] \<and> dayjs ref_collaborators ''2000-06-15'' = Date 2000 (6 - 1) 15
   \<and> (1::int) \<le> 6 \<and> (6::int) \<le> 12
   \<and> first_month (fst (initiate ref_collaborators (Some ''2000-06-15'') world0)) = Some (2000, 6)
   \<and> hd (emitted (fst (initiate ref_collaborators (Some ''2000-06-15'') world0))) = (2000, 6)
   \<and> list_all (lex_less (2000, 6))
        (tl (emitted (fst (initiate ref_collaborators (Some ''2000-06-15'') world0))))"
proof -
  have v: "dayjs ref_collaborators ''2000-06-15'' = Date 2000 (6 - 1) 15"
    by (simp add: ref_collaborators_def ref_dayjs_def is_digit_def number_of_def)
  have "first_month (fst (initiate ref_collaborators (Some ''2000-06-15'') world0)) = Some (2000, 6)
     \<and> (\<exists>rest. emitted (fst (initiate ref_collaborators (Some ''2000-06-15'') world0))
                 = (2000, 6) # rest
            \<and> (\<forall>p \<in> set rest. lex_less (2000, 6) p))"
    by (rule initiate_first_month [OF _ v]) simp_all
  then show ?thesis using v by (auto simp: list_all_iff)
qed

section \<open>The empty state of the builder\<close>

text \<open>
  C8. \<open>LifeHistory.initiate(null)\<close> returns the empty sequence of decades: a value, with
  no identifier drawn, no clock reading and nothing written to the console.
\<close>

theorem initiate_null: "initiate c None w = ([], w)"
  by (simp add: initiate_def js_falsy_def)

text \<open>
  C10. \<open>LifeHistory.initiate\<close> returns the empty sequence for every falsy birth date: the
  guard is \<open>!birthDate\<close>, which holds of the empty string as it does of \<open>null\<close>.
\<close>

theorem initiate_falsy:
  assumes "js_falsy birthDate"
  shows "initiate c birthDate w = ([], w)"
  using assms by (simp add: initiate_def)

theorem initiate_falsy_witness:
  "js_falsy (Some '''') \<and> initiate ref_collaborators (Some '''') world0 = ([], world0)"
  using initiate_falsy [of "Some ''''" ref_collaborators world0]
  by (simp add: js_falsy_def js_Boolean_def)

section \<open>The type guards\<close>

text \<open>
  C9. \<open>isLifeHistoryTextEvent\<close> holds of an event exactly when the event has a property
  \<open>event_text\<close> whose value is truthy, that is a non-empty string; an event whose
  \<open>event_text\<close> is the empty string is not a text event. The same holds of
  \<open>isLifeHistoryImageEvent\<close> and \<open>event_image\<close>.
\<close>

theorem type_guards_presence_and_truthiness:
  "isLifeHistoryTextEvent e = (\<exists>t. event_text e = Some t \<and> t \<noteq> '''')
   \<and> isLifeHistoryImageEvent e = (\<exists>t. event_image e = Some t \<and> t \<noteq> '''')
   \<and> \<not> isLifeHistoryTextEvent (e\<lparr>event_text := Some ''''\<rparr>)
   \<and> \<not> isLifeHistoryImageEvent (e\<lparr>event_image := Some ''''\<rparr>)"
  by (simp add: isLifeHistoryTextEvent_def isLifeHistoryImageEvent_def js_Boolean_def
      split: option.splits)

section \<open>The mover: lookup, move, frame\<close>

text \<open>The defining equations of the example structure, for evaluation.\<close>

lemmas example_defs =
  example_history_def june_2000_def july_2000_def january_2001_def january_2010_def
  march_1999_def example_event_def

lemma find_append_case:
  "find P (xs @ ys) = (case find P xs of None \<Rightarrow> find P ys | Some x \<Rightarrow> Some x)"
  by (induction xs) auto

lemma find_map_comp: "find P (map f xs) = map_option f (find (P \<circ> f) xs)"
  by (induction xs) auto

lemma find_in_months_find:
  "find_in_months i d y ms = map_option (\<lambda>m. (d, y, m)) (find (\<lambda>m. month_id m = i) ms)"
  by (induction ms) auto

lemma find_in_years_tagged:
  "map_option ids_of (find_in_years i d ys)
     = find (\<lambda>t. month_id (snd (snd t)) = i) (tags_of_decade d ys)"
proof (induction ys)
  case Nil
  show ?case by (simp add: tags_of_decade_def)
next
  case (Cons y ys)
  have split: "tags_of_decade d (y # ys)
      = map (\<lambda>m. (decade_id d, year_id y, m)) (months y) @ tags_of_decade d ys"
    by (simp add: tags_of_decade_def)
  have here: "find (\<lambda>t. month_id (snd (snd t)) = i) (map (\<lambda>m. (decade_id d, year_id y, m)) (months y))
      = map_option ids_of (find_in_months i d y (months y))"
    by (simp add: find_in_months_find find_map_comp comp_def option.map_comp ids_of_def)
  show ?case
  proof (cases "find_in_months i d y (months y)")
    case None
    then show ?thesis using Cons here by (simp add: split find_append_case)
  next
    case (Some r)
    then show ?thesis using here by (simp add: split find_append_case)
  qed
qed

lemma tagged_Cons: "tagged (d # ds) = tags_of_decade d (years d) @ tagged ds"
  by (simp add: tagged_def tags_of_decade_def)

lemma findEntities_tagged:
  "map_option ids_of (findEntities lh i) = find (\<lambda>t. month_id (snd (snd t)) = i) (tagged lh)"
proof (induction lh)
  case Nil
  show ?case by (simp add: tagged_def)
next
  case (Cons d ds)
  show ?case
  proof (cases "find_in_years i d (years d)")
    case None
    then show ?thesis
      using Cons find_in_years_tagged [of i d "years d"]
      by (simp add: tagged_Cons find_append_case)
  next
    case (Some r)
    then show ?thesis
      using find_in_years_tagged [of i d "years d", symmetric]
      by (simp add: tagged_Cons find_append_case)
  qed
qed

lemma all_months_tagged: "all_months lh = map (\<lambda>t. snd (snd t)) (tagged lh)"
proof (induction lh)
  case Nil
  show ?case by (simp add: all_months_def all_years_def tagged_def)
next
  case (Cons d ds)
  have "map (\<lambda>t. snd (snd t)) (tags_of_decade d ys) = concat (map months ys)" for ys
    by (induction ys) (simp_all add: tags_of_decade_def comp_def)
  moreover have "all_months (d # ds) = concat (map months (years d)) @ all_months ds"
    by (simp add: all_months_def all_years_def)
  ultimately show ?case using Cons by (simp add: tagged_Cons)
qed

lemma lookup_month_tagged:
  "lookup_month lh i
     = map_option (\<lambda>t. snd (snd t)) (find (\<lambda>t. month_id (snd (snd t)) = i) (tagged lh))"
  by (simp add: lookup_month_def all_months_tagged find_map_comp comp_def)

lemma lookup_month_findEntities:
  "lookup_month lh i = map_option (\<lambda>t. snd (snd t)) (findEntities lh i)"
proof -
  have "lookup_month lh i = map_option (\<lambda>t. snd (snd t)) (map_option ids_of (findEntities lh i))"
    by (simp only: lookup_month_tagged findEntities_tagged)
  then show ?thesis by (simp add: option.map_comp comp_def ids_of_def)
qed

lemma tags_of_decade_other:
  assumes "decade_id d \<noteq> did"
  shows "map (retag did yid mid g) (tags_of_decade d ys) = tags_of_decade d ys"
  using assms by (intro map_idI) (auto simp: tags_of_decade_def retag_def)

lemma tags_of_decade_map:
  assumes "decade_id d' = decade_id d" and "decade_id d = did"
  shows "tags_of_decade d'
           (map (\<lambda>y. if year_id y \<noteq> yid then y
                     else y\<lparr>months :=
                       map (\<lambda>m. if month_id m \<noteq> mid then m else g m) (months y)\<rparr>) ys)
     = map (retag did yid mid g) (tags_of_decade d ys)"
proof (induction ys)
  case Nil
  show ?case by (simp add: tags_of_decade_def)
next
  case (Cons y ys)
  have split: "tags_of_decade e (z # zs)
      = map (\<lambda>m. (decade_id e, year_id z, m)) (months z) @ tags_of_decade e zs" for e z zs
    by (simp add: tags_of_decade_def)
  show ?case
  proof (cases "year_id y = yid")
    case True
    then show ?thesis using Cons assms by (simp add: split retag_def comp_def)
  next
    case False
    then show ?thesis using Cons assms by (simp add: split retag_def comp_def)
  qed
qed

lemma tagged_deep_map:
  "tagged (deep_map did yid mid g lh) = map (retag did yid mid g) (tagged lh)"
proof (induction lh)
  case Nil
  show ?case by (simp add: tagged_def deep_map_def)
next
  case (Cons d ds)
  define Y where "Y = (\<lambda>y::LifeHistoryYear. if year_id y \<noteq> yid then y
                     else y\<lparr>months :=
                       map (\<lambda>m. if month_id m \<noteq> mid then m else g m) (months y)\<rparr>)"
  have unfold: "deep_map did yid mid g (d # ds)
      = (if decade_id d \<noteq> did then d else d\<lparr>years := map Y (years d)\<rparr>)
          # deep_map did yid mid g ds"
    by (simp add: deep_map_def Y_def)
  show ?case
  proof (cases "decade_id d = did")
    case True
    have "tags_of_decade (d\<lparr>years := map Y (years d)\<rparr>) (map Y (years d))
        = map (retag did yid mid g) (tags_of_decade d (years d))"
      unfolding Y_def by (rule tags_of_decade_map) (simp_all add: True)
    then show ?thesis using Cons True by (simp add: unfold tagged_Cons)
  next
    case False
    then show ?thesis using Cons by (simp add: unfold tagged_Cons tags_of_decade_other)
  qed
qed

lemma remove_from_source_deep_map:
  "remove_from_source did yid mid eid lh = deep_map did yid mid (drop_event eid) lh"
  by (simp add: remove_from_source_def deep_map_def drop_event_def)

lemma add_to_target_deep_map:
  "add_to_target did yid mid e lh = deep_map did yid mid (push_event e) lh"
  by (simp add: add_to_target_def deep_map_def push_event_def)

lemma find_Some_holds: "find P xs = Some x \<Longrightarrow> P x \<and> x \<in> set xs"
  by (induction xs) (auto split: if_splits)

lemma findEntities_month_id:
  assumes "findEntities lh i = Some (d, y, m)"
  shows "month_id m = i"
proof -
  have "find (\<lambda>t. month_id (snd (snd t)) = i) (tagged lh) = Some (ids_of (d, y, m))"
    using findEntities_tagged [of lh i] assms by simp
  then show ?thesis using find_Some_holds by (fastforce simp: ids_of_def)
qed

lemma moveEvent_moved:
  assumes "findEntities lh (month_id sM) = Some (sd, sy, sm)"
    and "findEntities lh (month_id tM) = Some (td, ty, tm)"
    and "find (\<lambda>e. event_id e = event_id ev) (events sm) = Some orig"
  shows "moveEvent c ev lh sM tM w
     = (deep_map (decade_id td) (year_id ty) (month_id tM)
          (push_event (updated_event c w (month_id tM) orig))
          (deep_map (decade_id sd) (year_id sy) (month_id sM) (drop_event (event_id ev)) lh),
        w\<lparr>clock_reads := Suc (clock_reads w)\<rparr>)"
  using assms findEntities_month_id [OF assms(2)]
  by (simp add: moveEvent_def Let_def dayjs_now_format_def remove_from_source_deep_map
      add_to_target_deep_map updated_event_def)

lemma moveEvent_miss:
  assumes "findEntities lh (month_id sM) = None \<or> findEntities lh (month_id tM) = None
     \<or> (\<exists>sd sy sm. findEntities lh (month_id sM) = Some (sd, sy, sm)
           \<and> find (\<lambda>e. event_id e = event_id ev) (events sm) = None)"
  shows "\<exists>msg. moveEvent c ev lh sM tM w = (lh, console_error msg w)"
  using assms
  by (auto simp: moveEvent_def Let_def split: option.splits)

lemma retag_month_id:
  assumes "\<And>m. month_id (g m) = month_id m"
  shows "month_id (snd (snd (retag did yid mid g t))) = month_id (snd (snd t))"
  using assms by (cases t) (simp add: retag_def)

lemma find_tagged_deep_map:
  assumes "\<And>m. month_id (g m) = month_id m"
  shows "find (\<lambda>t. month_id (snd (snd t)) = i) (tagged (deep_map did yid mid g lh))
     = map_option (retag did yid mid g) (find (\<lambda>t. month_id (snd (snd t)) = i) (tagged lh))"
  by (simp add: tagged_deep_map find_map_comp comp_def retag_month_id [of g, OF assms])

lemma month_id_drop_event: "month_id (drop_event eid m) = month_id m"
  by (simp add: drop_event_def)

lemma month_id_push_event: "month_id (push_event e m) = month_id m"
  by (simp add: push_event_def)

lemma lookup_after_move:
  assumes "findEntities lh i = Some (d, y, m)"
  shows "lookup_month
           (deep_map tdid tyid tid (push_event e) (deep_map sdid syid sid (drop_event eid) lh)) i
     = Some (snd (snd (retag tdid tyid tid (push_event e)
                 (retag sdid syid sid (drop_event eid) (decade_id d, year_id y, m)))))"
proof -
  have "find (\<lambda>t. month_id (snd (snd t)) = i) (tagged lh) = Some (decade_id d, year_id y, m)"
    using findEntities_tagged [of lh i] assms by (simp add: ids_of_def)
  then show ?thesis
    by (simp add: lookup_month_tagged find_tagged_deep_map month_id_drop_event month_id_push_event)
qed

lemma find_absent: "a \<notin> set (map f xs) \<Longrightarrow> find (\<lambda>x. f x = a) xs = None"
  by (induction xs) auto

lemma lookup_month_None:
  "lookup_month lh i = None \<longleftrightarrow> i \<notin> set (map month_id (all_months lh))"
  by (auto simp: lookup_month_def find_None_iff)

lemma findEntities_None:
  "findEntities lh i = None \<longleftrightarrow> i \<notin> set (map month_id (all_months lh))"
  using lookup_month_None [of lh i] by (simp add: lookup_month_findEntities)

lemma lookup_month_Some:
  assumes "lookup_month lh i = Some m"
  obtains d y where "findEntities lh i = Some (d, y, m)"
  using assms by (auto simp: lookup_month_findEntities)

lemma once_filter_length:
  assumes "length (filter (\<lambda>e. event_id e = eid) es) = 1"
  shows "length (filter (\<lambda>e. event_id e \<noteq> eid) es) + 1 = length es"
  using sum_length_filter_compl [of "\<lambda>e. event_id e = eid" es] assms by simp

lemma once_find:
  assumes "length (filter (\<lambda>e. event_id e = eid) es) = 1"
  obtains orig where "find (\<lambda>e. event_id e = eid) es = Some orig" and "event_id orig = eid"
proof -
  have "filter (\<lambda>e. event_id e = eid) es \<noteq> []" using assms by auto
  then have "\<exists>e. e \<in> set es \<and> event_id e = eid"
    by (auto simp: filter_empty_conv)
  then have "find (\<lambda>e. event_id e = eid) es \<noteq> None" by (simp add: find_None_iff)
  then obtain orig where f: "find (\<lambda>e. event_id e = eid) es = Some orig" by auto
  then have "event_id orig = eid" using find_Some_holds by fastforce
  then show ?thesis using f that by blast
qed

text \<open>
  C4. If the id of the source month or the id of the target month passed to
  \<open>LifeHistory.moveEvent\<close> is the id of no month of the structure, or the source month exists
  but holds no event with the id of the given event, then \<open>moveEvent\<close> returns its
  \<open>lifeHistory\<close> argument as it is; the call returns a value (nothing is thrown) and the
  only effect is one message on the error console.
\<close>

theorem moveEvent_lookup_miss:
  assumes "month_id sourceMonth \<notin> set (map month_id (all_months lifeHistory))
     \<or> month_id targetMonth \<notin> set (map month_id (all_months lifeHistory))
     \<or> (\<exists>m. lookup_month lifeHistory (month_id sourceMonth) = Some m
            \<and> event_id ev \<notin> set (map event_id (events m)))"
  shows "fst (moveEvent c ev lifeHistory sourceMonth targetMonth w) = lifeHistory
     \<and> (\<exists>msg. snd (moveEvent c ev lifeHistory sourceMonth targetMonth w) = console_error msg w)"
proof -
  have "findEntities lifeHistory (month_id sourceMonth) = None
     \<or> findEntities lifeHistory (month_id targetMonth) = None
     \<or> (\<exists>sd sy sm. findEntities lifeHistory (month_id sourceMonth) = Some (sd, sy, sm)
           \<and> find (\<lambda>e. event_id e = event_id ev) (events sm) = None)"
    using assms
  proof (elim disjE exE conjE)
    assume "month_id sourceMonth \<notin> set (map month_id (all_months lifeHistory))"
    then show ?thesis by (simp only: findEntities_None) simp
  next
    assume "month_id targetMonth \<notin> set (map month_id (all_months lifeHistory))"
    then show ?thesis by (simp only: findEntities_None) simp
  next
    fix m
    assume l: "lookup_month lifeHistory (month_id sourceMonth) = Some m"
      and e: "event_id ev \<notin> set (map event_id (events m))"
    from l obtain d y where "findEntities lifeHistory (month_id sourceMonth) = Some (d, y, m)"
      by (rule lookup_month_Some)
    moreover have "find (\<lambda>e. event_id e = event_id ev) (events m) = None"
      using e by (rule find_absent)
    ultimately show ?thesis by blast
  qed
  then obtain msg where
    "moveEvent c ev lifeHistory sourceMonth targetMonth w = (lifeHistory, console_error msg w)"
    using moveEvent_miss by blast
  then show ?thesis by auto
qed

theorem moveEvent_lookup_miss_witness:
  "month_id march_1999 \<notin> set (map month_id (all_months example_history))
   \<and> fst (moveEvent ref_collaborators (example_event ''e1'' ''2000-06-15'' ''0'') example_history
            march_1999 july_2000 world0) = example_history
   \<and> fst (moveEvent ref_collaborators (example_event ''e1'' ''2000-06-15'' ''0'') example_history
            june_2000 march_1999 world0) = example_history
   \<and> lookup_month example_history (month_id july_2000) = Some july_2000
   \<and> event_id (example_event ''e1'' ''2000-06-15'' ''0'') \<notin> set (map event_id (events july_2000))
   \<and> fst (moveEvent ref_collaborators (example_event ''e1'' ''2000-06-15'' ''0'') example_history
            july_2000 june_2000 world0) = example_history"
proof -
  have a: "month_id march_1999 \<notin> set (map month_id (all_months example_history))"
    by (simp add: all_months_def all_years_def example_defs)
  have b: "lookup_month example_history (month_id july_2000) = Some july_2000"
    by (simp add: lookup_month_def all_months_def all_years_def example_defs)
  have c: "event_id (example_event ''e1'' ''2000-06-15'' ''0'') \<notin> set (map event_id (events july_2000))"
    by (simp add: example_defs)
  show ?thesis
    using a b c
      moveEvent_lookup_miss [of march_1999 example_history july_2000
        "example_event ''e1'' ''2000-06-15'' ''0''" ref_collaborators world0]
      moveEvent_lookup_miss [of june_2000 example_history march_1999
        "example_event ''e1'' ''2000-06-15'' ''0''" ref_collaborators world0]
      moveEvent_lookup_miss [of july_2000 example_history june_2000
        "example_event ''e1'' ''2000-06-15'' ''0''" ref_collaborators world0]
    by blast
qed

text \<open>
  C5. Let \<open>A\<close> and \<open>B\<close> be the months of the structure with the id of the source and of the
  target month, the two ids being different, and let \<open>A\<close> hold exactly one event with the id
  of the given event. Then in the structure returned by \<open>LifeHistory.moveEvent\<close> the event
  list of \<open>A\<close> has lost that event and has one entry fewer, the event list of \<open>B\<close> has one
  entry more, the moved event is the last entry of the list of \<open>B\<close>, and its \<open>event_date\<close> is
  the date \<open>B.id + "-15"\<close> printed as \<open>YYYY-MM-DD\<close>, the 15th of the month the id names.
\<close>

theorem moveEvent_between_months:
  assumes "lookup_month lifeHistory (month_id sourceMonth) = Some A"
    and "lookup_month lifeHistory (month_id targetMonth) = Some B"
    and "month_id sourceMonth \<noteq> month_id targetMonth"
    and "length (filter (\<lambda>e. event_id e = event_id ev) (events A)) = 1"
  shows "\<exists>A' B' orig.
       lookup_month (fst (moveEvent c ev lifeHistory sourceMonth targetMonth w))
         (month_id sourceMonth) = Some A'
     \<and> lookup_month (fst (moveEvent c ev lifeHistory sourceMonth targetMonth w))
         (month_id targetMonth) = Some B'
     \<and> find (\<lambda>e. event_id e = event_id ev) (events A) = Some orig
     \<and> events A' = filter (\<lambda>e. event_id e \<noteq> event_id ev) (events A)
     \<and> length (events A') + 1 = length (events A)
     \<and> events B' = events B @ [updated_event c w (month_id B) orig]
     \<and> length (events B') = length (events B) + 1
     \<and> last (events B') = updated_event c w (month_id B) orig
     \<and> event_id (last (events B')) = event_id ev
     \<and> event_date (last (events B')) = format c (dayjs c (month_id B @ ''-15'')) ''YYYY-MM-DD''"
proof -
  from assms(1) obtain sd sy where s: "findEntities lifeHistory (month_id sourceMonth) = Some (sd, sy, A)"
    by (rule lookup_month_Some)
  from assms(2) obtain td ty where t: "findEntities lifeHistory (month_id targetMonth) = Some (td, ty, B)"
    by (rule lookup_month_Some)
  from assms(4) obtain orig where o: "find (\<lambda>e. event_id e = event_id ev) (events A) = Some orig"
    and oid: "event_id orig = event_id ev"
    by (rule once_find)
  have ida: "month_id A = month_id sourceMonth" using s by (rule findEntities_month_id)
  have idb: "month_id B = month_id targetMonth" using t by (rule findEntities_month_id)
  define upd where "upd = updated_event c w (month_id targetMonth) orig"
  have res: "fst (moveEvent c ev lifeHistory sourceMonth targetMonth w)
      = deep_map (decade_id td) (year_id ty) (month_id targetMonth) (push_event upd)
          (deep_map (decade_id sd) (year_id sy) (month_id sourceMonth) (drop_event (event_id ev))
             lifeHistory)"
    unfolding upd_def by (simp add: moveEvent_moved [OF s t o])
  have la: "lookup_month (fst (moveEvent c ev lifeHistory sourceMonth targetMonth w))
      (month_id sourceMonth) = Some (drop_event (event_id ev) A)"
    using assms(3) ida
    by (simp add: res lookup_after_move [OF s] retag_def month_id_drop_event)
  have lb: "lookup_month (fst (moveEvent c ev lifeHistory sourceMonth targetMonth w))
      (month_id targetMonth) = Some (push_event upd B)"
    using assms(3) idb
    by (simp add: res lookup_after_move [OF t] retag_def)
  have "events (drop_event (event_id ev) A) = filter (\<lambda>e. event_id e \<noteq> event_id ev) (events A)"
    by (simp add: drop_event_def)
  moreover have "length (events (drop_event (event_id ev) A)) + 1 = length (events A)"
    using once_filter_length [OF assms(4)] by (simp add: drop_event_def)
  moreover have "events (push_event upd B) = events B @ [updated_event c w (month_id B) orig]"
    by (simp add: push_event_def upd_def idb)
  moreover have "event_id (updated_event c w (month_id B) orig) = event_id ev"
    and "event_date (updated_event c w (month_id B) orig)
      = format c (dayjs c (month_id B @ ''-15'')) ''YYYY-MM-DD''"
    by (simp_all add: updated_event_def oid)
  ultimately show ?thesis using la lb o by simp
qed

theorem moveEvent_between_months_witness:
  "lookup_month example_history (month_id june_2000) = Some june_2000
   \<and> lookup_month example_history (month_id july_2000) = Some july_2000
   \<and> month_id june_2000 \<noteq> month_id july_2000
   \<and> length (filter (\<lambda>e. event_id e = event_id (example_event ''e1'' ''2000-06-15'' ''0''))
        (events june_2000)) = 1
   \<and> (\<exists>A' B'.
        lookup_month (fst (moveEvent ref_collaborators (example_event ''e1'' ''2000-06-15'' ''0'')
           example_history june_2000 july_2000 world0)) ''2000-06'' = Some A'
      \<and> lookup_month (fst (moveEvent ref_collaborators (example_event ''e1'' ''2000-06-15'' ''0'')
           example_history june_2000 july_2000 world0)) ''2000-07'' = Some B'
      \<and> length (events A') = 1 \<and> length (events B') = 2
      \<and> event_id (last (events B')) = ''e1''
      \<and> event_date (last (events B')) = ''2000-07-15'')"
proof -
  have a: "lookup_month example_history (month_id june_2000) = Some june_2000"
    by (simp add: lookup_month_def all_months_def all_years_def example_defs)
  have b: "lookup_month example_history (month_id july_2000) = Some july_2000"
    by (simp add: lookup_month_def all_months_def all_years_def example_defs)
  have d: "month_id june_2000 \<noteq> month_id july_2000"
    by (simp add: example_defs)
  have e: "length (filter (\<lambda>e. event_id e = event_id (example_event ''e1'' ''2000-06-15'' ''0''))
        (events june_2000)) = 1"
    by (simp add: example_defs)
  have f: "format ref_collaborators (dayjs ref_collaborators ''2000-07-15'') ''YYYY-MM-DD''
      = ''2000-07-15''"
    by code_simp
  have g: "length (events june_2000) = 2" "length (events july_2000) = 1"
    "month_id june_2000 = ''2000-06''" "month_id july_2000 = ''2000-07''"
    "event_id (example_event ''e1'' ''2000-06-15'' ''0'') = ''e1''"
    by (simp_all add: example_defs)
  show ?thesis
    using moveEvent_between_months [OF a b d e, of ref_collaborators world0] a b d e f
    unfolding g by auto
qed

lemma all_months_after_move:
  "all_months (deep_map tdid tyid tid gT (deep_map sdid syid sid gS lh))
     = map (\<lambda>t. snd (snd (retag tdid tyid tid gT (retag sdid syid sid gS t)))) (tagged lh)"
  by (simp add: all_months_tagged tagged_deep_map comp_def)

lemma distinct_month_ids_eq:
  assumes "distinct (map month_id (all_months lh))"
    and "m \<in> set (all_months lh)" and "m' \<in> set (all_months lh)"
    and "month_id m = month_id m'"
  shows "m = m'"
  using assms by (meson distinct_map inj_on_eq_iff)

text \<open>
  C6. In a structure whose month ids are pairwise distinct (the invariant of the data model),
  let \<open>M\<close> be the month with the id of both the source and the target month, holding exactly
  one event with the id of the given event. Then in the structure returned by
  \<open>LifeHistory.moveEvent\<close> every month has the id and the number of events it had, and the
  event is the last entry of the list of \<open>M\<close>, wherever it stood before: with its id, text,
  image and user as they were, its \<open>event_date\<close> the 15th of \<open>M\<close> and its \<open>updated_at\<close> the
  current reading of the clock.
\<close>

theorem moveEvent_same_month:
  assumes "distinct (map month_id (all_months lifeHistory))"
    and "lookup_month lifeHistory (month_id sourceMonth) = Some M"
    and "month_id targetMonth = month_id sourceMonth"
    and "length (filter (\<lambda>e. event_id e = event_id ev) (events M)) = 1"
  shows "map month_id (all_months (fst (moveEvent c ev lifeHistory sourceMonth targetMonth w)))
       = map month_id (all_months lifeHistory)
     \<and> map (\<lambda>m. length (events m))
         (all_months (fst (moveEvent c ev lifeHistory sourceMonth targetMonth w)))
       = map (\<lambda>m. length (events m)) (all_months lifeHistory)
     \<and> (\<exists>M' orig.
          lookup_month (fst (moveEvent c ev lifeHistory sourceMonth targetMonth w))
            (month_id sourceMonth) = Some M'
        \<and> find (\<lambda>e. event_id e = event_id ev) (events M) = Some orig
        \<and> events M' = filter (\<lambda>e. event_id e \<noteq> event_id ev) (events M)
                        @ [updated_event c w (month_id M) orig]
        \<and> last (events M') = updated_event c w (month_id M) orig
        \<and> event_id (last (events M')) = event_id ev
        \<and> event_text (last (events M')) = event_text orig
        \<and> event_image (last (events M')) = event_image orig
        \<and> user_id (last (events M')) = user_id orig
        \<and> event_date (last (events M')) = format c (dayjs c (month_id M @ ''-15'')) ''YYYY-MM-DD''
        \<and> updated_at (last (events M')) = now c (clock_reads w))"
proof -
  from assms(2) obtain sd sy where s: "findEntities lifeHistory (month_id sourceMonth) = Some (sd, sy, M)"
    by (rule lookup_month_Some)
  then have t: "findEntities lifeHistory (month_id targetMonth) = Some (sd, sy, M)"
    by (simp add: assms(3))
  from assms(4) obtain orig where o: "find (\<lambda>e. event_id e = event_id ev) (events M) = Some orig"
    and oid: "event_id orig = event_id ev"
    by (rule once_find)
  have idm: "month_id M = month_id sourceMonth" using s by (rule findEntities_month_id)
  have Min: "M \<in> set (all_months lifeHistory)"
    using assms(2) find_Some_holds unfolding lookup_month_def by fastforce
  define upd where "upd = updated_event c w (month_id sourceMonth) orig"
  define lh' where "lh' = fst (moveEvent c ev lifeHistory sourceMonth targetMonth w)"
  have res: "lh' = deep_map (decade_id sd) (year_id sy) (month_id sourceMonth) (push_event upd)
          (deep_map (decade_id sd) (year_id sy) (month_id sourceMonth) (drop_event (event_id ev))
             lifeHistory)"
    unfolding upd_def lh'_def by (simp add: moveEvent_moved [OF s t o] assms(3))
  have lm: "lookup_month lh' (month_id sourceMonth) = Some (push_event upd (drop_event (event_id ev) M))"
    using idm by (simp add: res lookup_after_move [OF s] retag_def month_id_drop_event)
  have ev: "events (push_event upd (drop_event (event_id ev) M))
      = filter (\<lambda>e. event_id e \<noteq> event_id ev) (events M) @ [updated_event c w (month_id M) orig]"
    by (simp add: push_event_def drop_event_def upd_def idm)
  have same_len: "length (events (push_event upd (drop_event (event_id ev) M))) = length (events M)"
    using once_filter_length [OF assms(4)] by (simp add: ev)
  have pt: "month_id (snd (snd (retag (decade_id sd) (year_id sy) (month_id sourceMonth) (push_event upd)
        (retag (decade_id sd) (year_id sy) (month_id sourceMonth) (drop_event (event_id ev)) t))))
        = month_id (snd (snd t))
      \<and> length (events (snd (snd (retag (decade_id sd) (year_id sy) (month_id sourceMonth) (push_event upd)
        (retag (decade_id sd) (year_id sy) (month_id sourceMonth) (drop_event (event_id ev)) t)))))
        = length (events (snd (snd t)))"
    if "t \<in> set (tagged lifeHistory)" for t
  proof (cases t)
    case (fields di yi m)
    have "m \<in> set (all_months lifeHistory)"
      using that fields by (force simp: all_months_tagged)
    then have "m = M" if "month_id m = month_id sourceMonth"
      using distinct_month_ids_eq [OF assms(1) _ Min] that idm by simp
    then show ?thesis
      using same_len
      by (auto simp: fields retag_def month_id_drop_event month_id_push_event)
  qed
  define F where "F = (\<lambda>t. snd (snd (retag (decade_id sd) (year_id sy) (month_id sourceMonth)
        (push_event upd)
        (retag (decade_id sd) (year_id sy) (month_id sourceMonth) (drop_event (event_id ev)) t))))"
  have am: "all_months lh' = map F (tagged lifeHistory)"
    by (simp only: res all_months_after_move F_def)
  have "map month_id (all_months lh') = map (\<lambda>t. month_id (F t)) (tagged lifeHistory)"
    by (simp add: am)
  also have "\<dots> = map (\<lambda>t. month_id (snd (snd t))) (tagged lifeHistory)"
    by (rule map_cong) (simp_all add: pt F_def)
  also have "\<dots> = map month_id (all_months lifeHistory)"
    by (simp add: all_months_tagged)
  finally have ids: "map month_id (all_months lh') = map month_id (all_months lifeHistory)" .
  have "map (\<lambda>m. length (events m)) (all_months lh')
      = map (\<lambda>t. length (events (F t))) (tagged lifeHistory)"
    by (simp add: am)
  also have "\<dots> = map (\<lambda>t. length (events (snd (snd t)))) (tagged lifeHistory)"
    by (rule map_cong) (simp_all add: pt F_def)
  also have "\<dots> = map (\<lambda>m. length (events m)) (all_months lifeHistory)"
    by (simp add: all_months_tagged)
  finally have lens: "map (\<lambda>m. length (events m)) (all_months lh')
      = map (\<lambda>m. length (events m)) (all_months lifeHistory)" .
  have "event_id (updated_event c w (month_id M) orig) = event_id ev"
    and "event_text (updated_event c w (month_id M) orig) = event_text orig"
    and "event_image (updated_event c w (month_id M) orig) = event_image orig"
    and "user_id (updated_event c w (month_id M) orig) = user_id orig"
    and "event_date (updated_event c w (month_id M) orig)
      = format c (dayjs c (month_id M @ ''-15'')) ''YYYY-MM-DD''"
    and "updated_at (updated_event c w (month_id M) orig) = now c (clock_reads w)"
    by (simp_all add: updated_event_def oid)
  then show ?thesis
    using ids lens lm ev o unfolding lh'_def by simp
qed

theorem moveEvent_same_month_witness:
  "distinct (map month_id (all_months example_history))
   \<and> lookup_month example_history (month_id june_2000) = Some june_2000
   \<and> length (filter (\<lambda>e. event_id e = event_id (example_event ''e1'' ''2000-06-15'' ''0''))
        (events june_2000)) = 1
   \<and> map event_id (events june_2000) = [''e1'', ''e2'']
   \<and> map (\<lambda>m. length (events m)) (all_months example_history) = [2, 1, 1, 1]
   \<and> map (\<lambda>m. length (events m))
        (all_months (fst (moveEvent ref_collaborators (example_event ''e1'' ''2000-06-15'' ''0'')
           example_history june_2000 june_2000 world0))) = [2, 1, 1, 1]
   \<and> (\<exists>M'.
        lookup_month (fst (moveEvent ref_collaborators (example_event ''e1'' ''2000-06-15'' ''0'')
           example_history june_2000 june_2000 world0)) ''2000-06'' = Some M'
      \<and> map event_id (events M') = [''e2'', ''e1'']
      \<and> event_text (last (events M')) = Some ''0''
      \<and> event_date (last (events M')) = ''2000-06-15''
      \<and> updated_at (last (events M')) = ''2024-01-01T00:00:00'')"
proof -
  have a: "distinct (map month_id (all_months example_history))"
    by (simp add: all_months_def all_years_def example_defs)
  have b: "lookup_month example_history (month_id june_2000) = Some june_2000"
    by (simp add: lookup_month_def all_months_def all_years_def example_defs)
  have e: "length (filter (\<lambda>e. event_id e = event_id (example_event ''e1'' ''2000-06-15'' ''0''))
        (events june_2000)) = 1"
    by (simp add: example_defs)
  have f: "format ref_collaborators (dayjs ref_collaborators ''2000-06-15'') ''YYYY-MM-DD''
      = ''2000-06-15''"
    by code_simp
  have n: "now ref_collaborators (clock_reads world0) = ''2024-01-01T00:00:00''"
    by code_simp
  have g1: "map (\<lambda>m. length (events m)) (all_months example_history) = [2, 1, 1, 1]"
    and g2: "map event_id (events june_2000) = [''e1'', ''e2'']"
    and g3: "month_id june_2000 = ''2000-06''"
    and g4: "find (\<lambda>e. event_id e = event_id (example_event ''e1'' ''2000-06-15'' ''0''))
        (events june_2000) = Some (example_event ''e1'' ''2000-06-15'' ''0'')"
    and g5: "map event_id (filter (\<lambda>e. event_id e \<noteq> ''e1'') (events june_2000)) = [''e2'']"
    and g6: "event_text (example_event ''e1'' ''2000-06-15'' ''0'') = Some ''0''"
    and g7: "event_id (example_event ''e1'' ''2000-06-15'' ''0'') = ''e1''"
    by (simp_all add: all_months_def all_years_def example_defs)
  define lh' where "lh' = fst (moveEvent ref_collaborators (example_event ''e1'' ''2000-06-15'' ''0'')
           example_history june_2000 june_2000 world0)"
  from moveEvent_same_month [OF a b refl e, of ref_collaborators world0]
  obtain M' orig where
    lens: "map (\<lambda>m. length (events m)) (all_months lh')
        = map (\<lambda>m. length (events m)) (all_months example_history)"
    and lk: "lookup_month lh' (month_id june_2000) = Some M'"
    and fo: "find (\<lambda>e. event_id e = event_id (example_event ''e1'' ''2000-06-15'' ''0''))
        (events june_2000) = Some orig"
    and evs: "events M' = filter (\<lambda>e. event_id e
          \<noteq> event_id (example_event ''e1'' ''2000-06-15'' ''0'')) (events june_2000)
        @ [updated_event ref_collaborators world0 (month_id june_2000) orig]"
    and la: "last (events M') = updated_event ref_collaborators world0 (month_id june_2000) orig"
    and li: "event_id (last (events M')) = event_id (example_event ''e1'' ''2000-06-15'' ''0'')"
    and lt: "event_text (last (events M')) = event_text orig"
    and ld: "event_date (last (events M'))
        = format ref_collaborators (dayjs ref_collaborators (month_id june_2000 @ ''-15'')) ''YYYY-MM-DD''"
    and lu: "updated_at (last (events M')) = now ref_collaborators (clock_reads world0)"
    unfolding lh'_def by blast
  have orig: "orig = example_event ''e1'' ''2000-06-15'' ''0''" using fo g4 by simp
  have "map event_id (events M') = [''e2'', ''e1'']"
    using li la by (simp add: evs g5 g7)
  moreover have "event_text (last (events M')) = Some ''0''" by (simp add: lt orig g6)
  moreover have "event_date (last (events M')) = ''2000-06-15''" by (simp add: ld g3 f)
  moreover have "updated_at (last (events M')) = ''2024-01-01T00:00:00''" by (simp add: lu n)
  moreover have "lookup_month lh' ''2000-06'' = Some M'" using lk by (simp add: g3)
  ultimately show ?thesis
    using a b e g1 g2 lens unfolding lh'_def by auto
qed

lemma frame_month_refl: "frame_month sid tid m m"
  by (simp add: frame_month_def)

lemma frame_year_refl: "frame_year sid tid y y"
  by (simp add: frame_year_def list_all2_same frame_month_refl)

lemma frame_decade_refl: "frame_decade sid tid d d"
  by (simp add: frame_decade_def list_all2_same frame_year_refl)

lemma frame_refl: "frame sid tid lh lh"
  by (simp add: frame_def list_all2_same frame_decade_refl)

lemma frame_month_trans:
  "frame_month sid tid a b \<Longrightarrow> frame_month sid tid b c \<Longrightarrow> frame_month sid tid a c"
  by (auto simp: frame_month_def)

lemma frame_year_trans:
  assumes "frame_year sid tid a b" and "frame_year sid tid b c"
  shows "frame_year sid tid a c"
proof -
  have ab: "list_all2 (frame_month sid tid) (months a) (months b)"
    and bc: "list_all2 (frame_month sid tid) (months b) (months c)"
    using assms by (simp_all add: frame_year_def)
  have "list_all2 (frame_month sid tid) (months a) (months c)"
    by (rule list_all2_trans [OF _ ab bc]) (rule frame_month_trans)
  moreover have "c = a" if "\<not> on_path_year sid tid a"
    using assms that by (auto simp: frame_year_def)
  ultimately show ?thesis by (simp add: frame_year_def)
qed

lemma frame_decade_trans:
  assumes "frame_decade sid tid a b" and "frame_decade sid tid b c"
  shows "frame_decade sid tid a c"
proof -
  have ab: "list_all2 (frame_year sid tid) (years a) (years b)"
    and bc: "list_all2 (frame_year sid tid) (years b) (years c)"
    using assms by (simp_all add: frame_decade_def)
  have "list_all2 (frame_year sid tid) (years a) (years c)"
    by (rule list_all2_trans [OF _ ab bc]) (rule frame_year_trans)
  moreover have "c = a" if "\<not> on_path_decade sid tid a"
    using assms that by (auto simp: frame_decade_def)
  ultimately show ?thesis by (simp add: frame_decade_def)
qed

lemma frame_trans:
  assumes "frame sid tid a b" and "frame sid tid b c"
  shows "frame sid tid a c"
  unfolding frame_def
  by (rule list_all2_trans [OF _ assms [unfolded frame_def]]) (rule frame_decade_trans)

lemma frame_year_map:
  assumes "mid = sid \<or> mid = tid"
  shows "frame_year sid tid y
           (y\<lparr>months := map (\<lambda>m. if month_id m \<noteq> mid then m else g m) (months y)\<rparr>)"
proof -
  have "frame_month sid tid m (if month_id m \<noteq> mid then m else g m)" for m
    using assms by (auto simp: frame_month_def on_path_month_def)
  then have "list_all2 (frame_month sid tid) (months y)
      (map (\<lambda>m. if month_id m \<noteq> mid then m else g m) (months y))"
    by (simp add: list_all2_map2 list_all2_same)
  moreover have "map (\<lambda>m. if month_id m \<noteq> mid then m else g m) (months y) = months y"
    if "\<not> on_path_year sid tid y"
    using that assms
    by (intro map_idI) (auto simp: on_path_year_def on_path_month_def list_ex_iff)
  ultimately show ?thesis by (simp add: frame_year_def)
qed

lemma frame_decade_map:
  assumes "mid = sid \<or> mid = tid"
  shows "frame_decade sid tid d
           (d\<lparr>years :=
                map (\<lambda>y. if year_id y \<noteq> yid then y
                         else y\<lparr>months :=
                           map (\<lambda>m. if month_id m \<noteq> mid then m else g m) (months y)\<rparr>)
                    (years d)\<rparr>)"
proof -
  define Y where "Y = (\<lambda>y::LifeHistoryYear. if year_id y \<noteq> yid then y
                         else y\<lparr>months :=
                           map (\<lambda>m. if month_id m \<noteq> mid then m else g m) (months y)\<rparr>)"
  have fy: "frame_year sid tid y (Y y)" for y
    using frame_year_map [OF assms, of y g] by (simp add: Y_def frame_year_refl)
  then have "list_all2 (frame_year sid tid) (years d) (map Y (years d))"
    by (simp add: list_all2_map2 list_all2_same)
  moreover have "map Y (years d) = years d" if "\<not> on_path_decade sid tid d"
  proof (rule map_idI)
    fix y assume "y \<in> set (years d)"
    then have "\<not> on_path_year sid tid y"
      using that by (auto simp: on_path_decade_def list_ex_iff)
    then show "Y y = y" using fy [of y] by (simp add: frame_year_def)
  qed
  ultimately show ?thesis by (simp add: frame_decade_def Y_def [symmetric])
qed

lemma frame_deep_map:
  assumes "mid = sid \<or> mid = tid"
  shows "frame sid tid lh (deep_map did yid mid g lh)"
proof -
  have "frame_decade sid tid d
      (if decade_id d \<noteq> did then d
       else d\<lparr>years :=
                map (\<lambda>y. if year_id y \<noteq> yid then y
                         else y\<lparr>months :=
                           map (\<lambda>m. if month_id m \<noteq> mid then m else g m) (months y)\<rparr>)
                    (years d)\<rparr>)" for d
    using frame_decade_map [OF assms, of d yid g] by (simp add: frame_decade_refl)
  then show ?thesis
    by (simp add: frame_def deep_map_def list_all2_map2 list_all2_same)
qed

text \<open>
  C7. A node is on the path to the source or to the target month when it is a month with the
  id of the source or of the target month, or a year or decade that contains such a month.
  For every call of \<open>LifeHistory.moveEvent\<close>, successful or not, the returned structure has
  the decades, years and months of the input in the same positions, and every decade, year
  and month that is not on the path equals the node of the input at its position.
\<close>

theorem moveEvent_frame:
  "frame (month_id sourceMonth) (month_id targetMonth) lifeHistory
     (fst (moveEvent c ev lifeHistory sourceMonth targetMonth w))"
proof (cases "\<exists>sd sy sm td ty tm orig.
    findEntities lifeHistory (month_id sourceMonth) = Some (sd, sy, sm)
    \<and> findEntities lifeHistory (month_id targetMonth) = Some (td, ty, tm)
    \<and> find (\<lambda>e. event_id e = event_id ev) (events sm) = Some orig")
  case True
  then obtain sd sy sm td ty tm orig where
    s: "findEntities lifeHistory (month_id sourceMonth) = Some (sd, sy, sm)"
    and t: "findEntities lifeHistory (month_id targetMonth) = Some (td, ty, tm)"
    and o: "find (\<lambda>e. event_id e = event_id ev) (events sm) = Some orig"
    by blast
  show ?thesis
    unfolding moveEvent_moved [OF s t o] fst_conv
    by (rule frame_trans [OF frame_deep_map frame_deep_map]) simp_all
next
  case False
  then have "findEntities lifeHistory (month_id sourceMonth) = None
     \<or> findEntities lifeHistory (month_id targetMonth) = None
     \<or> (\<exists>sd sy sm. findEntities lifeHistory (month_id sourceMonth) = Some (sd, sy, sm)
           \<and> find (\<lambda>e. event_id e = event_id ev) (events sm) = None)"
    by (cases "findEntities lifeHistory (month_id sourceMonth)";
        cases "findEntities lifeHistory (month_id targetMonth)") auto
  then obtain msg where
    "moveEvent c ev lifeHistory sourceMonth targetMonth w = (lifeHistory, console_error msg w)"
    using moveEvent_miss by blast
  then show ?thesis by (simp add: frame_refl)
qed

theorem moveEvent_frame_witness:
  "\<not> on_path_decade (month_id june_2000) (month_id july_2000) (example_history ! 1)
   \<and> fst (moveEvent ref_collaborators (example_event ''e1'' ''2000-06-15'' ''0'')
            example_history june_2000 july_2000 world0) ! 1 = example_history ! 1
   \<and> \<not> on_path_year (month_id june_2000) (month_id july_2000) (years (example_history ! 0) ! 1)
   \<and> years (fst (moveEvent ref_collaborators (example_event ''e1'' ''2000-06-15'' ''0'')
            example_history june_2000 july_2000 world0) ! 0) ! 1
        = years (example_history ! 0) ! 1"
proof -
  define lh' where "lh' = fst (moveEvent ref_collaborators (example_event ''e1'' ''2000-06-15'' ''0'')
            example_history june_2000 july_2000 world0)"
  have fr: "list_all2 (frame_decade (month_id june_2000) (month_id july_2000)) example_history lh'"
    using moveEvent_frame [of june_2000 july_2000 example_history ref_collaborators
        "example_event ''e1'' ''2000-06-15'' ''0''" world0]
    by (simp add: frame_def lh'_def)
  have len: "length example_history = 2" "length (years (example_history ! 0)) = 2"
    by (simp_all add: example_defs)
  have off1: "\<not> on_path_decade (month_id june_2000) (month_id july_2000) (example_history ! 1)"
    by (simp add: on_path_decade_def on_path_year_def on_path_month_def example_defs)
  have off2: "\<not> on_path_year (month_id june_2000) (month_id july_2000)
      (years (example_history ! 0) ! 1)"
    by (simp add: on_path_year_def on_path_month_def example_defs)
  have d1: "frame_decade (month_id june_2000) (month_id july_2000) (example_history ! 1) (lh' ! 1)"
    using list_all2_nthD [OF fr, of 1] len by simp
  have d0: "frame_decade (month_id june_2000) (month_id july_2000) (example_history ! 0) (lh' ! 0)"
    using list_all2_nthD [OF fr, of 0] len by simp
  then have "list_all2 (frame_year (month_id june_2000) (month_id july_2000))
      (years (example_history ! 0)) (years (lh' ! 0))"
    by (simp add: frame_decade_def)
  then have y1: "frame_year (month_id june_2000) (month_id july_2000)
      (years (example_history ! 0) ! 1) (years (lh' ! 0) ! 1)"
    using list_all2_nthD [of _ "years (example_history ! 0)" "years (lh' ! 0)" 1] len by simp
  show ?thesis
    using off1 off2 d1 y1 unfolding lh'_def [symmetric]
    by (simp add: frame_decade_def frame_year_def)
qed

end
